theory Spec2Isabelle
  imports Main "HOL-Library.Sublist"
begin

section \<open>Python values and their text\<close>

text \<open>
  A Python dict with string keys is an association list: the manifests only ever hold a
  handful of keys and their order is the order of the literal in the source.
\<close>

type_synonym 'v dict = "(string \<times> 'v) list"

definition digit_char :: "nat \<Rightarrow> char" where
  "digit_char d = ''0123456789'' ! d"

text \<open>\<open>str(n)\<close> for a Python int: decimal digits, a leading minus sign when negative.\<close>

fun str_nat :: "nat \<Rightarrow> string" where
  "str_nat n = (if n < 10 then [digit_char n] else str_nat (n div 10) @ [digit_char (n mod 10)])"

declare str_nat.simps [simp del]

definition str_int :: "int \<Rightarrow> string" where
  "str_int i = (if i < 0 then CHR ''-'' # str_nat (nat (- i)) else str_nat (nat i))"

text \<open>
  What an f-string field \<open>{x}\<close> renders when \<open>x\<close> is an int or \<open>None\<close>
  (the result of \<open>spec.get(key)\<close> on a missing key).
\<close>

definition fmt_opt_int :: "int option \<Rightarrow> string" where
  "fmt_opt_int x = (case x of None \<Rightarrow> ''None'' | Some i \<Rightarrow> str_int i)"

text \<open>
  Reading decimal digits back, to say what the text of \<open>str_int\<close> denotes.
\<close>

definition digit_val :: "char \<Rightarrow> nat" where
  "digit_val c = of_char c - 48"

definition read_nat :: "string \<Rightarrow> nat" where
  "read_nat s = foldl (\<lambda>a c. 10 * a + digit_val c) 0 s"

section \<open>operator.py: constants\<close>

definition CONTAINER_PORT :: nat where "CONTAINER_PORT = 80"
definition CONFIG_FILENAME :: string where "CONFIG_FILENAME = ''config.yaml''"
definition MOUNT_PATH :: string where "MOUNT_PATH = ''/var/server''"
definition CONFIG_KEY :: string where "CONFIG_KEY = ''config.yaml''"

section \<open>operator.py: the objects of the kubernetes client\<close>

text \<open>
  Each record holds the fields the source passes to the client's constructor; the fields
  it leaves out are \<open>None\<close> in Python and are not represented. \<open>replicas\<close> and
  \<open>image\<close> are optional because \<open>update_fn\<close> patches them with whatever
  \<open>spec.get\<close> returned.
\<close>

record v1_object_meta =
  meta_name :: string
  meta_namespace :: string
  meta_labels :: "string dict"

record v1_config_map =
  cm_metadata :: v1_object_meta
  cm_data :: "string dict"

record v1_service_port =
  sp_port :: nat
  sp_target_port :: nat
  sp_protocol :: string

record v1_service_spec =
  ss_cluster_ip :: string
  ss_selector :: "string dict"
  ss_ports :: "v1_service_port list"

record v1_service =
  svc_metadata :: v1_object_meta
  svc_spec :: v1_service_spec

record v1_volume_mount =
  vm_name :: string
  vm_mount_path :: string
  vm_read_only :: bool

record v1_resource_requirements =
  rr_requests :: "string dict"
  rr_limits :: "string dict"

record v1_container =
  c_name :: string
  c_image :: "string option"
  c_env :: "string dict"
  c_ports :: "nat list"
  c_volume_mounts :: "v1_volume_mount list"
  c_resources :: v1_resource_requirements

record v1_volume =
  vol_name :: string
  vol_config_map_name :: string
  vol_items :: "string dict"

record v1_pod_template_spec =
  tmpl_labels :: "string dict"
  tmpl_containers :: "v1_container list"
  tmpl_volumes :: "v1_volume list"

record v1_stateful_set_spec =
  sts_service_name :: string
  sts_replicas :: "int option"
  sts_selector :: "string dict"
  sts_template :: v1_pod_template_spec

record v1_stateful_set =
  sts_metadata :: v1_object_meta
  sts_spec :: v1_stateful_set_spec

section \<open>operator.py: the manifest builders\<close>

definition configmap_manifest ::
  "string \<Rightarrow> string \<Rightarrow> int \<Rightarrow> int \<Rightarrow> string dict \<Rightarrow> v1_config_map" where
  "configmap_manifest name namespace replicas timer labels =
     (let data = ''replicas: '' @ str_int replicas @ ''\<newline>timer: '' @ str_int timer @ ''\<newline>''
      in \<lparr>cm_metadata = \<lparr>meta_name = name, meta_namespace = namespace, meta_labels = labels\<rparr>,
          cm_data = [(CONFIG_KEY, data)]\<rparr>)"

definition service_manifest :: "string \<Rightarrow> string \<Rightarrow> string dict \<Rightarrow> v1_service" where
  "service_manifest name namespace labels =
     (let spec = \<lparr>ss_cluster_ip = ''None'',
                  ss_selector = labels,
                  ss_ports = [\<lparr>sp_port = CONTAINER_PORT, sp_target_port = CONTAINER_PORT,
                               sp_protocol = ''TCP''\<rparr>]\<rparr>
      in \<lparr>svc_metadata = \<lparr>meta_name = name, meta_namespace = namespace, meta_labels = labels\<rparr>,
          svc_spec = spec\<rparr>)"

definition statefulset_manifest ::
  "string \<Rightarrow> string \<Rightarrow> string \<Rightarrow> string \<Rightarrow> string dict \<Rightarrow> int \<Rightarrow> string \<Rightarrow> v1_stateful_set" where
  "statefulset_manifest name service_name configmap_name namespace labels replicas image' =
     (let container =
            \<lparr>c_name = ''main'',
             c_image = Some image',
             c_env = [(''HEADLESS_SERVICE'', service_name)],
             c_ports = [CONTAINER_PORT],
             c_volume_mounts = [\<lparr>vm_name = ''config-volume'', vm_mount_path = MOUNT_PATH,
                                  vm_read_only = True\<rparr>],
             c_resources = \<lparr>rr_requests = [(''cpu'', ''100m''), (''memory'', ''64Mi'')],
                            rr_limits = [(''cpu'', ''100m''), (''memory'', ''64Mi'')]\<rparr>\<rparr>;
          volumes = [\<lparr>vol_name = ''config-volume'', vol_config_map_name = configmap_name,
                      vol_items = [(CONFIG_KEY, CONFIG_KEY)]\<rparr>];
          pod_template = \<lparr>tmpl_labels = labels, tmpl_containers = [container],
                          tmpl_volumes = volumes\<rparr>;
          spec = \<lparr>sts_service_name = service_name, sts_replicas = Some replicas,
                  sts_selector = labels, sts_template = pod_template\<rparr>
      in \<lparr>sts_metadata = \<lparr>meta_name = name, meta_namespace = namespace, meta_labels = labels\<rparr>,
          sts_spec = spec\<rparr>)"

section \<open>The cluster: the API server behind the kubernetes client\<close>

text \<open>
  The handlers talk to the cluster through \<open>core\<close> and \<open>apps\<close>, the two client
  objects of the kubernetes library. The library is not part of the repository; it is
  modelled as the environment: a store of objects keyed by kind, namespace and name. A
  call returns, or raises \<open>ApiException\<close> when the server answered with an error status
  (409 when a created object already exists, 404 when a patched or deleted object does
  not exist), or raises an exception of another class when no answer came at all (the
  library lets urllib3's \<open>MaxRetryError\<close> through on a refused connection or a
  timeout). The handlers' \<open>except ApiException\<close> clauses catch the first kind only.

  Failures that do not come from the store are entries of the fault schedule \<open>faults\<close>:
  each call takes the head of the schedule, and raises it when it is an exception, leaving
  the store as it was. An empty schedule is a cluster without faults.

  The world also keeps what a test would observe from outside: every call with its
  outcome, and every line written to a logger.
\<close>

datatype api_exception =
  ApiException (status: nat) (exc_reason: string) (exc_headers: string) (exc_body: string)

text \<open>
  \<open>str(e)\<close> for an \<open>ApiException\<close>, as the library's \<open>__str__\<close> builds it: status
  and reason on two lines, then the response headers and the response body when they
  are not empty.
\<close>

definition str_of :: "api_exception \<Rightarrow> string" where
  "str_of e =
     ''('' @ str_nat (status e) @ '')\<newline>Reason: '' @ exc_reason e @ ''\<newline>''
       @ (if exc_headers e \<noteq> [] then ''HTTP response headers: '' @ exc_headers e @ ''\<newline>'' else [])
       @ (if exc_body e \<noteq> [] then ''HTTP response body: '' @ exc_body e @ ''\<newline>'' else [])"

text \<open>
  What a call can raise: an \<open>ApiException\<close>, or an exception of another class, named
  by its class.
\<close>

datatype py_exception = Api api_exception | NotApi string

datatype outcome = Returned | Raised py_exception

record sts_patch =
  pb_replicas :: "int option"
  pb_containers :: "(string \<times> string option) list"

datatype api_call =
    CreateService string v1_service
  | CreateConfigMap string v1_config_map
  | CreateStatefulSet string v1_stateful_set
  | PatchStatefulSet string string sts_patch
  | PatchConfigMap string string "string dict"
  | DeleteService string string
  | DeleteStatefulSet string string
  | DeleteConfigMap string string

datatype log_sink = KopfLogger | RootLogging

datatype log_level = INFO | WARNING | ERROR

type_synonym log_entry = "log_sink \<times> log_level \<times> string"

type_synonym obj_key = "string \<times> string"

record world =
  services :: "obj_key \<rightharpoonup> v1_service"
  config_maps :: "obj_key \<rightharpoonup> v1_config_map"
  stateful_sets :: "obj_key \<rightharpoonup> v1_stateful_set"
  faults :: "py_exception option list"
  calls :: "(api_call \<times> outcome) list"
  logged :: "log_entry list"

definition next_fault :: "world \<Rightarrow> py_exception option \<times> world" where
  "next_fault w = (case faults w of [] \<Rightarrow> (None, w) | f # fs \<Rightarrow> (f, w\<lparr>faults := fs\<rparr>))"

definition record_call :: "api_call \<Rightarrow> outcome \<Rightarrow> world \<Rightarrow> world" where
  "record_call c out w = w\<lparr>calls := calls w @ [(c, out)]\<rparr>"

text \<open>
  The two exceptions the store itself gives rise to. They carry status and reason only,
  like \<open>ApiException(status=404, reason="Not Found")\<close>; the headers and the body of a
  real server's answer are not modelled.
\<close>

definition already_exists :: api_exception where
  "already_exists = ApiException 409 ''Conflict'' [] []"

definition not_found :: api_exception where
  "not_found = ApiException 404 ''Not Found'' [] []"

subsection \<open>create\<close>

definition create_namespaced_service ::
  "world \<Rightarrow> string \<Rightarrow> v1_service \<Rightarrow> (py_exception + unit) \<times> world" where
  "create_namespaced_service w namespace body =
     (let (f, w1) = next_fault w;
          c = CreateService namespace body;
          k = (namespace, meta_name (svc_metadata body))
      in case f of
           Some e \<Rightarrow> (Inl e, record_call c (Raised e) w1)
         | None \<Rightarrow>
             if services w1 k \<noteq> None
             then (Inl (Api already_exists), record_call c (Raised (Api already_exists)) w1)
             else (Inr (), record_call c Returned (w1\<lparr>services := (services w1)(k \<mapsto> body)\<rparr>)))"

definition create_namespaced_config_map ::
  "world \<Rightarrow> string \<Rightarrow> v1_config_map \<Rightarrow> (py_exception + unit) \<times> world" where
  "create_namespaced_config_map w namespace body =
     (let (f, w1) = next_fault w;
          c = CreateConfigMap namespace body;
          k = (namespace, meta_name (cm_metadata body))
      in case f of
           Some e \<Rightarrow> (Inl e, record_call c (Raised e) w1)
         | None \<Rightarrow>
             if config_maps w1 k \<noteq> None
             then (Inl (Api already_exists), record_call c (Raised (Api already_exists)) w1)
             else (Inr (), record_call c Returned (w1\<lparr>config_maps := (config_maps w1)(k \<mapsto> body)\<rparr>)))"

definition create_namespaced_stateful_set ::
  "world \<Rightarrow> string \<Rightarrow> v1_stateful_set \<Rightarrow> (py_exception + unit) \<times> world" where
  "create_namespaced_stateful_set w namespace body =
     (let (f, w1) = next_fault w;
          c = CreateStatefulSet namespace body;
          k = (namespace, meta_name (sts_metadata body))
      in case f of
           Some e \<Rightarrow> (Inl e, record_call c (Raised e) w1)
         | None \<Rightarrow>
             if stateful_sets w1 k \<noteq> None
             then (Inl (Api already_exists), record_call c (Raised (Api already_exists)) w1)
             else (Inr (), record_call c Returned
                     (w1\<lparr>stateful_sets := (stateful_sets w1)(k \<mapsto> body)\<rparr>)))"

subsection \<open>patch\<close>

text \<open>
  A patch merges the fields of its body into the stored object and leaves the others. The
  containers of the pod template are merged by name: the container of that name takes the
  patch's image, and a name the template does not have adds a container. A \<open>None\<close> in
  the body is a JSON null, which clears the field.
\<close>

fun merge_container :: "string \<times> string option \<Rightarrow> v1_container list \<Rightarrow> v1_container list" where
  "merge_container (n, img) [] =
     [\<lparr>c_name = n, c_image = img, c_env = [], c_ports = [], c_volume_mounts = [],
       c_resources = \<lparr>rr_requests = [], rr_limits = []\<rparr>\<rparr>]"
| "merge_container (n, img) (c # cs) =
     (if c_name c = n then c\<lparr>c_image := img\<rparr> # cs else c # merge_container (n, img) cs)"

definition apply_sts_patch :: "sts_patch \<Rightarrow> v1_stateful_set \<Rightarrow> v1_stateful_set" where
  "apply_sts_patch body sts =
     (let spec = sts_spec sts;
          tmpl = sts_template spec;
          cs = foldl (\<lambda>cs p. merge_container p cs) (tmpl_containers tmpl) (pb_containers body)
      in sts\<lparr>sts_spec := spec\<lparr>sts_replicas := pb_replicas body,
                               sts_template := tmpl\<lparr>tmpl_containers := cs\<rparr>\<rparr>\<rparr>)"

fun dict_set :: "string \<Rightarrow> 'v \<Rightarrow> 'v dict \<Rightarrow> 'v dict" where
  "dict_set k v [] = [(k, v)]"
| "dict_set k v ((k', v') # d) = (if k' = k then (k, v) # d else (k', v') # dict_set k v d)"

definition apply_cm_patch :: "string dict \<Rightarrow> v1_config_map \<Rightarrow> v1_config_map" where
  "apply_cm_patch body cm =
     cm\<lparr>cm_data := foldl (\<lambda>d (k, v). dict_set k v d) (cm_data cm) body\<rparr>"

definition patch_namespaced_stateful_set ::
  "world \<Rightarrow> string \<Rightarrow> string \<Rightarrow> sts_patch \<Rightarrow> (py_exception + unit) \<times> world" where
  "patch_namespaced_stateful_set w name namespace body =
     (let (f, w1) = next_fault w;
          c = PatchStatefulSet name namespace body;
          k = (namespace, name)
      in case f of
           Some e \<Rightarrow> (Inl e, record_call c (Raised e) w1)
         | None \<Rightarrow>
             (case stateful_sets w1 k of
                None \<Rightarrow> (Inl (Api not_found), record_call c (Raised (Api not_found)) w1)
              | Some sts \<Rightarrow>
                  (Inr (), record_call c Returned
                     (w1\<lparr>stateful_sets := (stateful_sets w1)(k \<mapsto> apply_sts_patch body sts)\<rparr>))))"

definition patch_namespaced_config_map ::
  "world \<Rightarrow> string \<Rightarrow> string \<Rightarrow> string dict \<Rightarrow> (py_exception + unit) \<times> world" where
  "patch_namespaced_config_map w name namespace body =
     (let (f, w1) = next_fault w;
          c = PatchConfigMap name namespace body;
          k = (namespace, name)
      in case f of
           Some e \<Rightarrow> (Inl e, record_call c (Raised e) w1)
         | None \<Rightarrow>
             (case config_maps w1 k of
                None \<Rightarrow> (Inl (Api not_found), record_call c (Raised (Api not_found)) w1)
              | Some cm \<Rightarrow>
                  (Inr (), record_call c Returned
                     (w1\<lparr>config_maps := (config_maps w1)(k \<mapsto> apply_cm_patch body cm)\<rparr>))))"

subsection \<open>delete\<close>

definition delete_namespaced_service ::
  "world \<Rightarrow> string \<Rightarrow> string \<Rightarrow> (py_exception + unit) \<times> world" where
  "delete_namespaced_service w name namespace =
     (let (f, w1) = next_fault w;
          c = DeleteService name namespace;
          k = (namespace, name)
      in case f of
           Some e \<Rightarrow> (Inl e, record_call c (Raised e) w1)
         | None \<Rightarrow>
             if services w1 k = None
             then (Inl (Api not_found), record_call c (Raised (Api not_found)) w1)
             else (Inr (), record_call c Returned (w1\<lparr>services := (services w1)(k := None)\<rparr>)))"

definition delete_namespaced_stateful_set ::
  "world \<Rightarrow> string \<Rightarrow> string \<Rightarrow> (py_exception + unit) \<times> world" where
  "delete_namespaced_stateful_set w name namespace =
     (let (f, w1) = next_fault w;
          c = DeleteStatefulSet name namespace;
          k = (namespace, name)
      in case f of
           Some e \<Rightarrow> (Inl e, record_call c (Raised e) w1)
         | None \<Rightarrow>
             if stateful_sets w1 k = None
             then (Inl (Api not_found), record_call c (Raised (Api not_found)) w1)
             else (Inr (), record_call c Returned
                     (w1\<lparr>stateful_sets := (stateful_sets w1)(k := None)\<rparr>)))"

definition delete_namespaced_config_map ::
  "world \<Rightarrow> string \<Rightarrow> string \<Rightarrow> (py_exception + unit) \<times> world" where
  "delete_namespaced_config_map w name namespace =
     (let (f, w1) = next_fault w;
          c = DeleteConfigMap name namespace;
          k = (namespace, name)
      in case f of
           Some e \<Rightarrow> (Inl e, record_call c (Raised e) w1)
         | None \<Rightarrow>
             if config_maps w1 k = None
             then (Inl (Api not_found), record_call c (Raised (Api not_found)) w1)
             else (Inr (), record_call c Returned
                     (w1\<lparr>config_maps := (config_maps w1)(k := None)\<rparr>)))"

section \<open>operator.py: the handlers\<close>

text \<open>
  The \<open>spec\<close> of the custom resource is a dict; the handlers read three keys of it with
  \<open>spec.get\<close>, so each key is present with a value of its schema type or absent.
\<close>

record cr_spec =
  spec_replicas :: "int option"
  spec_timer :: "int option"
  spec_image :: "string option"

definition logger_info :: "string \<Rightarrow> world \<Rightarrow> world" where
  "logger_info msg w = w\<lparr>logged := logged w @ [(KopfLogger, INFO, msg)]\<rparr>"

definition logger_error :: "string \<Rightarrow> world \<Rightarrow> world" where
  "logger_error msg w = w\<lparr>logged := logged w @ [(KopfLogger, ERROR, msg)]\<rparr>"

definition logging_info :: "string \<Rightarrow> world \<Rightarrow> world" where
  "logging_info msg w = w\<lparr>logged := logged w @ [(RootLogging, INFO, msg)]\<rparr>"

definition logging_error :: "string \<Rightarrow> world \<Rightarrow> world" where
  "logging_error msg w = w\<lparr>logged := logged w @ [(RootLogging, ERROR, msg)]\<rparr>"

text \<open>
  \<open>create_fn\<close>: each \<open>try\<close> block either lets the handler go on (the call returned, or
  raised \<open>ApiException\<close> with status 409) or leaves an exception that ends the handler:
  an \<open>ApiException\<close> of another status, which the \<open>except\<close> clause re-raises, or an
  exception of another class, which the clause does not catch.
\<close>

definition create_fn ::
  "world \<Rightarrow> cr_spec \<Rightarrow> string \<Rightarrow> string \<Rightarrow> (py_exception + string dict) \<times> world" where
  "create_fn w spec name namespace =
     (let replicas = (case spec_replicas spec of None \<Rightarrow> 1 | Some r \<Rightarrow> r);
          timer = (case spec_timer spec of None \<Rightarrow> 30 | Some t \<Rightarrow> t);
          image' = (case spec_image spec of None \<Rightarrow> ''6y6en/ping-pong:latest'' | Some i \<Rightarrow> i);
          svc_name = name @ ''-svc'';
          sts_name = name @ ''-sts'';
          cm_name = name @ ''-cm'';
          labels = [(''app'', name)];
          w0 = logger_info (''Creating PingPong resources: svc='' @ svc_name @ '', sts='' @ sts_name
                 @ '', cm='' @ cm_name @ '', replicas='' @ str_int replicas
                 @ '', timer='' @ str_int timer) w;
          svc_manifest = service_manifest svc_name namespace labels;
          (r1, w1) = create_namespaced_service w0 namespace svc_manifest;
          (x1, w1') = (case r1 of
                         Inr _ \<Rightarrow> (None, logger_info (''Service '' @ svc_name @ '' created'') w1)
                       | Inl (Api e) \<Rightarrow>
                           if status e = 409
                           then (None, logger_info (''Service '' @ svc_name @ '' already exists'') w1)
                           else (Some (Api e), w1)
                       | Inl (NotApi c) \<Rightarrow> (Some (NotApi c), w1))
      in case x1 of
           Some e \<Rightarrow> (Inl e, w1')
         | None \<Rightarrow>
     (let cm_manifest = configmap_manifest cm_name namespace replicas timer labels;
          (r2, w2) = create_namespaced_config_map w1' namespace cm_manifest;
          (x2, w2') = (case r2 of
                         Inr _ \<Rightarrow> (None, logger_info (''ConfigMap '' @ cm_name @ '' created'') w2)
                       | Inl (Api e) \<Rightarrow>
                           if status e = 409
                           then (None, logger_info (''ConfigMap '' @ cm_name @ '' already exists'') w2)
                           else (Some (Api e), w2)
                       | Inl (NotApi c) \<Rightarrow> (Some (NotApi c), w2))
      in case x2 of
           Some e \<Rightarrow> (Inl e, w2')
         | None \<Rightarrow>
     (let sts_manifest = statefulset_manifest sts_name svc_name cm_name namespace labels
                           replicas image';
          (r3, w3) = create_namespaced_stateful_set w2' namespace sts_manifest;
          (x3, w3') = (case r3 of
                         Inr _ \<Rightarrow> (None, logger_info (''StatefulSet '' @ sts_name @ '' created'') w3)
                       | Inl (Api e) \<Rightarrow>
                           if status e = 409
                           then (None, logger_info (''StatefulSet '' @ sts_name @ '' already exists'') w3)
                           else (Some (Api e), w3)
                       | Inl (NotApi c) \<Rightarrow> (Some (NotApi c), w3))
      in case x3 of
           Some e \<Rightarrow> (Inl e, w3')
         | None \<Rightarrow>
             (Inr [(''svc_name'', svc_name), (''sts_name'', sts_name), (''cm_name'', cm_name)],
              w3'))))"

text \<open>
  \<open>update_fn\<close>: \<open>diff\<close> is kopf's list of changes \<open>(op, field, old, new)\<close>, here with
  each component as the text its f-string field renders; the loop over it only logs.
  Each \<open>except ApiException\<close> clause logs and falls through; an exception of another
  class is not caught and ends the handler. The function has no \<open>return\<close>.
\<close>

definition update_fn ::
  "world \<Rightarrow> cr_spec \<Rightarrow> string \<Rightarrow> string \<Rightarrow> (string \<times> string \<times> string \<times> string) list
     \<Rightarrow> (py_exception + unit) \<times> world" where
  "update_fn w spec name namespace diff =
     (let image' = spec_image spec;
          replicas = spec_replicas spec;
          timer = spec_timer spec;
          sts_name = name @ ''-sts'';
          cm_name = name @ ''-cm'';
          w0 = foldl (\<lambda>w (op, field, old, new).
                  logger_info (''Detected change in '' @ field @ '': '' @ old @ '' -> '' @ new) w)
                w diff;
          ss_body = \<lparr>pb_replicas = replicas, pb_containers = [(''main'', image')]\<rparr>;
          (r1, w1) = patch_namespaced_stateful_set w0 sts_name namespace ss_body;
          (x1, w1') = (case r1 of
                         Inr _ \<Rightarrow> (None, logging_info (''Updated StatefulSet '' @ sts_name) w1)
                       | Inl (Api e) \<Rightarrow>
                           (None, logging_error (''Failed to update StatefulSet: '' @ str_of e) w1)
                       | Inl (NotApi c) \<Rightarrow> (Some (NotApi c), w1))
      in case x1 of
           Some x \<Rightarrow> (Inl x, w1')
         | None \<Rightarrow>
     (let cm_data = ''replicas: '' @ fmt_opt_int replicas @ ''\<newline>timer: '' @ fmt_opt_int timer
                      @ ''\<newline>'';
          cm_body = [(CONFIG_KEY, cm_data)];
          (r2, w2) = patch_namespaced_config_map w1' cm_name namespace cm_body;
          (x2, w2') = (case r2 of
                         Inr _ \<Rightarrow> (None, logging_info (''Updated ConfigMap '' @ cm_name) w2)
                       | Inl (Api e) \<Rightarrow>
                           (None, logging_error (''Failed to update ConfigMap: '' @ str_of e) w2)
                       | Inl (NotApi c) \<Rightarrow> (Some (NotApi c), w2))
      in case x2 of
           Some x \<Rightarrow> (Inl x, w2')
         | None \<Rightarrow> (Inr (), w2')))"

text \<open>
  \<open>delete_fn\<close>: the \<open>for\<close> loop over the three pairs of a delete function and a name.
  A round whose call raises an exception that is not an \<open>ApiException\<close> ends the loop
  and the handler with it.
\<close>

type_synonym delete_api = "world \<Rightarrow> string \<Rightarrow> string \<Rightarrow> (py_exception + unit) \<times> world"

fun delete_loop ::
  "world \<Rightarrow> string \<Rightarrow> (delete_api \<times> string) list \<Rightarrow> (py_exception + unit) \<times> world" where
  "delete_loop w namespace [] = (Inr (), w)"
| "delete_loop w namespace ((fn, n) # rest) =
     (let (r, w1) = fn w n namespace
      in case r of
           Inr _ \<Rightarrow> delete_loop (logger_info (''Deleted '' @ n) w1) namespace rest
         | Inl (Api e) \<Rightarrow>
             delete_loop
               (if status e = 404
                then logger_info (n @ '' already deleted'') w1
                else logger_error (''Failed to delete '' @ n @ '': '' @ str_of e) w1)
               namespace rest
         | Inl (NotApi c) \<Rightarrow> (Inl (NotApi c), w1))"

definition delete_fn ::
  "world \<Rightarrow> cr_spec \<Rightarrow> string \<Rightarrow> string \<Rightarrow> (py_exception + unit) \<times> world" where
  "delete_fn w spec name namespace =
     (let svc_name = name @ ''-svc'';
          sts_name = name @ ''-sts'';
          cm_name = name @ ''-cm''
      in delete_loop w namespace
           [(delete_namespaced_service, svc_name),
            (delete_namespaced_stateful_set, sts_name),
            (delete_namespaced_config_map, cm_name)])"

section \<open>server/main.py: one pass of the ping loop\<close>

text \<open>
  The globals of the module are the fields of \<open>server\<close>. \<open>config\<close> holds what
  \<open>yaml.safe_load\<close> returned; its values are ints, strings or \<open>None\<close>.
\<close>

datatype pyval = PyNone | PyInt int | PyStr string

datatype py_error = TypeError

record server =
  config :: "pyval dict"
  pod_prefix :: string
  pod_number :: int
  service_name :: string

text \<open>
  \<open>load_config\<close>: the argument is what reading and parsing the mounted file gives,
  \<open>None\<close> when that raises (the exception is caught and only logged). A falsy result
  keeps the old configuration, since the source assigns \<open>yaml.safe_load(f) or config\<close>.
\<close>

definition load_config :: "server \<Rightarrow> pyval dict option \<Rightarrow> server" where
  "load_config srv file =
     (case file of
        None \<Rightarrow> srv
      | Some d \<Rightarrow> srv\<lparr>config := (if d \<noteq> [] then d else config srv)\<rparr>)"

definition ping_url :: "server \<Rightarrow> int \<Rightarrow> string" where
  "ping_url srv i =
     ''http://'' @ pod_prefix srv @ ''-'' @ str_int i
       @ (if service_name srv \<noteq> [] then ''.'' @ service_name srv else [])
       @ ''/ping''"

text \<open>
  The \<open>for\<close> loop over \<open>range(0, replicas)\<close>: the own ordinal is skipped, every other
  one is requested; \<open>requests_get\<close> answers with the response text or with the text of
  the exception, which the \<open>except\<close> clause logs before the loop goes on. The result is
  the list of requests made, each with its ordinal, its URL and its answer.
\<close>

fun ping_range ::
  "server \<Rightarrow> (string \<Rightarrow> string + string) \<Rightarrow> int list \<Rightarrow> (int \<times> string \<times> (string + string)) list" where
  "ping_range srv requests_get [] = []"
| "ping_range srv requests_get (i # rest) =
     (if i = pod_number srv then ping_range srv requests_get rest
      else (let url = ping_url srv i
            in (i, url, requests_get url) # ping_range srv requests_get rest))"

text \<open>
  One pass of the body of \<open>while not stop_event.is_set()\<close>, up to the wait.
  \<open>range(0, replicas)\<close> raises \<open>TypeError\<close> unless \<open>replicas\<close> is an int; nothing in
  \<open>ping_loop\<close> catches that.
\<close>

definition ping_pass ::
  "server \<Rightarrow> pyval dict option \<Rightarrow> (string \<Rightarrow> string + string)
     \<Rightarrow> py_error + (int \<times> string \<times> (string + string)) list" where
  "ping_pass srv file requests_get =
     (let srv' = load_config srv file;
          replicas = map_of (config srv') ''replicas'';
          timer = map_of (config srv') ''timer''
      in case replicas of
           Some (PyInt n) \<Rightarrow> Inr (ping_range srv' requests_get [0..n - 1])
         | _ \<Rightarrow> Inl TypeError)"

section \<open>Observing a handler run\<close>

text \<open>
  The calls a handler added to the trace, the outcome of one call, whether
  \<open>create_fn\<close> goes on after it, and names for the values \<open>create_fn\<close> computes
  before its first call: its three manifests, its first log line, the line it logs
  after a call and the dict it returns.
\<close>

definition new_calls :: "world \<Rightarrow> world \<Rightarrow> (api_call \<times> outcome) list" where
  "new_calls w w' = drop (length (calls w)) (calls w')"

definition out_of :: "py_exception + unit \<Rightarrow> outcome" where
  "out_of r = (case r of Inl e \<Rightarrow> Raised e | Inr _ \<Rightarrow> Returned)"

definition goes_on :: "py_exception + unit \<Rightarrow> bool" where
  "goes_on r =
     (case r of Inr _ \<Rightarrow> True | Inl (Api e) \<Rightarrow> status e = 409 | Inl (NotApi c) \<Rightarrow> False)"

definition svc_of :: "string \<Rightarrow> string \<Rightarrow> v1_service" where
  "svc_of name ns = service_manifest (name @ ''-svc'') ns [(''app'', name)]"

definition cm_of :: "cr_spec \<Rightarrow> string \<Rightarrow> string \<Rightarrow> v1_config_map" where
  "cm_of spec name ns = configmap_manifest (name @ ''-cm'') ns
        (case spec_replicas spec of None \<Rightarrow> 1 | Some r \<Rightarrow> r)
        (case spec_timer spec of None \<Rightarrow> 30 | Some t \<Rightarrow> t) [(''app'', name)]"

definition sts_of :: "cr_spec \<Rightarrow> string \<Rightarrow> string \<Rightarrow> v1_stateful_set" where
  "sts_of spec name ns = statefulset_manifest (name @ ''-sts'') (name @ ''-svc'') (name @ ''-cm'') ns [(''app'', name)]
        (case spec_replicas spec of None \<Rightarrow> 1 | Some r \<Rightarrow> r)
        (case spec_image spec of None \<Rightarrow> ''6y6en/ping-pong:latest'' | Some i \<Rightarrow> i)"

definition create_banner :: "cr_spec \<Rightarrow> string \<Rightarrow> string" where
  "create_banner spec name = ''Creating PingPong resources: svc='' @ (name @ ''-svc'') @ '', sts='' @ (name @ ''-sts'')
                 @ '', cm='' @ (name @ ''-cm'') @ '', replicas='' @ str_int (case spec_replicas spec of None \<Rightarrow> 1 | Some r \<Rightarrow> r)
                 @ '', timer='' @ str_int (case spec_timer spec of None \<Rightarrow> 30 | Some t \<Rightarrow> t)"

definition created_msg :: "string \<Rightarrow> string \<Rightarrow> py_exception + unit \<Rightarrow> string" where
  "created_msg kind n r = kind @ '' '' @ n @ (case r of Inr _ \<Rightarrow> '' created'' | Inl _ \<Rightarrow> '' already exists'')"

definition create_ret :: "string \<Rightarrow> string dict" where
  "create_ret name = [(''svc_name'', name @ ''-svc''), (''sts_name'', name @ ''-sts''), (''cm_name'', name @ ''-cm'')]"


definition new_logged :: "world \<Rightarrow> world \<Rightarrow> log_entry list" where
  "new_logged w w' = drop (length (logged w)) (logged w')"

definition absorbed :: "outcome \<Rightarrow> bool" where
  "absorbed out =
     (case out of
        Returned \<Rightarrow> True
      | Raised (Api e) \<Rightarrow> status e = 409
      | Raised (NotApi c) \<Rightarrow> False)"

text \<open>
  An outcome that \<open>update_fn\<close> and \<open>delete_fn\<close> survive: the call returned, or what
  it raised is an \<open>ApiException\<close>. A world all of whose scheduled faults are of that
  kind.
\<close>

definition caught :: "outcome \<Rightarrow> bool" where
  "caught out = (case out of Raised (NotApi c) \<Rightarrow> False | _ \<Rightarrow> True)"

definition api_only :: "world \<Rightarrow> bool" where
  "api_only w = list_all (\<lambda>f. case f of Some (NotApi c) \<Rightarrow> False | _ \<Rightarrow> True) (faults w)"


text \<open>
  For \<open>update_fn\<close>: the world after the loop over \<open>diff\<close>, the two patch bodies, and
  the world after the log line that follows each patch.
\<close>

definition log_changes :: "world \<Rightarrow> (string \<times> string \<times> string \<times> string) list \<Rightarrow> world" where
  "log_changes w diff =
     foldl (\<lambda>w (op, field, old, new).
              logger_info (''Detected change in '' @ field @ '': '' @ old @ '' -> '' @ new) w)
       w diff"

definition sts_body :: "cr_spec \<Rightarrow> sts_patch" where
  "sts_body spec = \<lparr>pb_replicas = spec_replicas spec, pb_containers = [(''main'', spec_image spec)]\<rparr>"

definition cm_body :: "cr_spec \<Rightarrow> string dict" where
  "cm_body spec =
     [(CONFIG_KEY, ''replicas: '' @ fmt_opt_int (spec_replicas spec) @ ''\<newline>timer: ''
                     @ fmt_opt_int (spec_timer spec) @ ''\<newline>'')]"

text \<open>The lines \<open>update_fn\<close> logs after a patch, by the outcome of the call.\<close>

definition patch_lines :: "string \<Rightarrow> string \<Rightarrow> outcome \<Rightarrow> log_entry list" where
  "patch_lines kind n out =
     (case out of
        Returned \<Rightarrow> [(RootLogging, INFO, ''Updated '' @ kind @ '' '' @ n)]
      | Raised (Api e) \<Rightarrow> [(RootLogging, ERROR, ''Failed to update '' @ kind @ '': '' @ str_of e)]
      | Raised (NotApi c) \<Rightarrow> [])"

definition after_sts_patch :: "string \<Rightarrow> py_exception + unit \<Rightarrow> world \<Rightarrow> world" where
  "after_sts_patch name r w =
     w\<lparr>logged := logged w @ patch_lines ''StatefulSet'' (name @ ''-sts'') (out_of r)\<rparr>"

definition after_cm_patch :: "string \<Rightarrow> py_exception + unit \<Rightarrow> world \<Rightarrow> world" where
  "after_cm_patch name r w =
     w\<lparr>logged := logged w @ patch_lines ''ConfigMap'' (name @ ''-cm'') (out_of r)\<rparr>"

text \<open>
  For \<open>delete_fn\<close>: the lines one round of the loop logs, by the outcome of its call,
  and the world after them.
\<close>

definition delete_lines :: "string \<Rightarrow> outcome \<Rightarrow> log_entry list" where
  "delete_lines n out =
     (case out of
        Returned \<Rightarrow> [(KopfLogger, INFO, ''Deleted '' @ n)]
      | Raised (Api e) \<Rightarrow>
          [if status e = 404 then (KopfLogger, INFO, n @ '' already deleted'')
           else (KopfLogger, ERROR, ''Failed to delete '' @ n @ '': '' @ str_of e)]
      | Raised (NotApi c) \<Rightarrow> [])"

definition after_delete :: "string \<Rightarrow> py_exception + unit \<Rightarrow> world \<Rightarrow> world" where
  "after_delete n r w = w\<lparr>logged := logged w @ delete_lines n (out_of r)\<rparr>"

text \<open>
  What a call is aimed at (kind, namespace, name of the object), and every label set a
  created body carries: its own metadata labels, a selector, the pod template's labels.
\<close>

fun call_target :: "api_call \<Rightarrow> string \<times> string \<times> string" where
  "call_target (CreateService ns b) = (''Service'', ns, meta_name (svc_metadata b))"
| "call_target (CreateConfigMap ns b) = (''ConfigMap'', ns, meta_name (cm_metadata b))"
| "call_target (CreateStatefulSet ns b) = (''StatefulSet'', ns, meta_name (sts_metadata b))"
| "call_target (PatchStatefulSet n ns b) = (''StatefulSet'', ns, n)"
| "call_target (PatchConfigMap n ns b) = (''ConfigMap'', ns, n)"
| "call_target (DeleteService n ns) = (''Service'', ns, n)"
| "call_target (DeleteStatefulSet n ns) = (''StatefulSet'', ns, n)"
| "call_target (DeleteConfigMap n ns) = (''ConfigMap'', ns, n)"

fun call_labels :: "api_call \<Rightarrow> string dict list" where
  "call_labels (CreateService ns b) = [meta_labels (svc_metadata b), ss_selector (svc_spec b)]"
| "call_labels (CreateConfigMap ns b) = [meta_labels (cm_metadata b)]"
| "call_labels (CreateStatefulSet ns b) =
     [meta_labels (sts_metadata b), sts_selector (sts_spec b),
      tmpl_labels (sts_template (sts_spec b))]"
| "call_labels _ = []"

section \<open>Concrete clusters and resources\<close>

definition empty_cluster :: world where
  "empty_cluster =
     \<lparr>services = Map.empty, config_maps = Map.empty, stateful_sets = Map.empty,
      faults = [], calls = [], logged = []\<rparr>"

definition http_500 :: api_exception where
  "http_500 = ApiException 500 ''Internal Server Error'' [] []"

definition http_503 :: api_exception where
  "http_503 = ApiException 503 ''Service Unavailable'' [] []"

definition foo_spec :: cr_spec where
  "foo_spec = \<lparr>spec_replicas = Some 3, spec_timer = Some 10,
               spec_image = Some ''6y6en/ping-pong:latest''\<rparr>"

definition no_spec :: cr_spec where
  "no_spec = \<lparr>spec_replicas = None, spec_timer = None, spec_image = None\<rparr>"

text \<open>A cluster where an earlier run created the Service and the ConfigMap of \<open>foo\<close> only.\<close>

definition partial_cluster :: world where
  "partial_cluster =
     empty_cluster
       \<lparr>services := [(''default'', ''foo-svc'') \<mapsto> svc_of ''foo'' ''default''],
        config_maps := [(''default'', ''foo-cm'') \<mapsto> cm_of foo_spec ''foo'' ''default'']\<rparr>"

text \<open>
  A resource whose spec leaves \<open>timer\<close> out, and the same resource after its image
  alone was changed.
\<close>

definition spec_v1 :: cr_spec where
  "spec_v1 = \<lparr>spec_replicas = Some 2, spec_timer = None, spec_image = Some ''6y6en/ping-pong:v1''\<rparr>"

definition spec_v2 :: cr_spec where
  "spec_v2 = \<lparr>spec_replicas = Some 2, spec_timer = None, spec_image = Some ''6y6en/ping-pong:v2''\<rparr>"

definition pod_1 :: server where
  "pod_1 = \<lparr>config = [(''replicas'', PyInt 0), (''timer'', PyInt 6000)],
            pod_prefix = ''foo-sts'', pod_number = 1, service_name = ''foo-svc''\<rparr>"

text \<open>
  An empty cluster whose second call is answered with status 500; one whose first two
  calls are answered with 500 and 503; and the cluster of \<open>partial_cluster\<close> when it
  cannot be reached, so that the first call raises \<open>MaxRetryError\<close>.
\<close>

definition flaky_cluster :: world where
  "flaky_cluster = empty_cluster\<lparr>faults := [None, Some (Api http_500)]\<rparr>"

definition failing_cluster :: world where
  "failing_cluster = empty_cluster\<lparr>faults := [Some (Api http_500), Some (Api http_503)]\<rparr>"

definition unreachable_cluster :: world where
  "unreachable_cluster = partial_cluster\<lparr>faults := [Some (NotApi ''MaxRetryError'')]\<rparr>"

section \<open>Facts about the cluster calls\<close>

lemmas view_defs = svc_of_def cm_of_def sts_of_def create_banner_def created_msg_def create_ret_def

lemma logger_info_fields [simp]:
  "services (logger_info m w) = services w"
  "config_maps (logger_info m w) = config_maps w"
  "stateful_sets (logger_info m w) = stateful_sets w"
  "faults (logger_info m w) = faults w"
  "calls (logger_info m w) = calls w"
  "logged (logger_info m w) = logged w @ [(KopfLogger, INFO, m)]"
  by (simp_all add: logger_info_def)

lemma logger_error_fields [simp]:
  "services (logger_error m w) = services w"
  "config_maps (logger_error m w) = config_maps w"
  "stateful_sets (logger_error m w) = stateful_sets w"
  "faults (logger_error m w) = faults w"
  "calls (logger_error m w) = calls w"
  "logged (logger_error m w) = logged w @ [(KopfLogger, ERROR, m)]"
  by (simp_all add: logger_error_def)

lemma logging_info_fields [simp]:
  "services (logging_info m w) = services w"
  "config_maps (logging_info m w) = config_maps w"
  "stateful_sets (logging_info m w) = stateful_sets w"
  "faults (logging_info m w) = faults w"
  "calls (logging_info m w) = calls w"
  "logged (logging_info m w) = logged w @ [(RootLogging, INFO, m)]"
  by (simp_all add: logging_info_def)

lemma logging_error_fields [simp]:
  "services (logging_error m w) = services w"
  "config_maps (logging_error m w) = config_maps w"
  "stateful_sets (logging_error m w) = stateful_sets w"
  "faults (logging_error m w) = faults w"
  "calls (logging_error m w) = calls w"
  "logged (logging_error m w) = logged w @ [(RootLogging, ERROR, m)]"
  by (simp_all add: logging_error_def)

lemma create_service_facts:
  assumes "create_namespaced_service w ns b = (r, w')"
  shows "calls w' = calls w @ [(CreateService ns b, out_of r)]"
    and "logged w' = logged w"
    and "config_maps w' = config_maps w"
    and "stateful_sets w' = stateful_sets w"
    and "faults w' = tl (faults w)"
    and "services w' = (if r = Inr () then (services w)((ns, meta_name (svc_metadata b)) \<mapsto> b)
                        else services w)"
    and "faults w = [] \<Longrightarrow>
           r = (if services w (ns, meta_name (svc_metadata b)) = None then Inr () else Inl (Api already_exists))"
  using assms
  by (auto simp: create_namespaced_service_def next_fault_def record_call_def out_of_def Let_def
           split: list.splits option.splits if_splits)

lemma create_config_map_facts:
  assumes "create_namespaced_config_map w ns b = (r, w')"
  shows "calls w' = calls w @ [(CreateConfigMap ns b, out_of r)]"
    and "logged w' = logged w"
    and "services w' = services w"
    and "stateful_sets w' = stateful_sets w"
    and "faults w' = tl (faults w)"
    and "config_maps w' = (if r = Inr () then (config_maps w)((ns, meta_name (cm_metadata b)) \<mapsto> b)
                           else config_maps w)"
    and "faults w = [] \<Longrightarrow>
           r = (if config_maps w (ns, meta_name (cm_metadata b)) = None then Inr () else Inl (Api already_exists))"
  using assms
  by (auto simp: create_namespaced_config_map_def next_fault_def record_call_def out_of_def Let_def
           split: list.splits option.splits if_splits)

lemma create_stateful_set_facts:
  assumes "create_namespaced_stateful_set w ns b = (r, w')"
  shows "calls w' = calls w @ [(CreateStatefulSet ns b, out_of r)]"
    and "logged w' = logged w"
    and "services w' = services w"
    and "config_maps w' = config_maps w"
    and "faults w' = tl (faults w)"
    and "stateful_sets w' = (if r = Inr () then (stateful_sets w)((ns, meta_name (sts_metadata b)) \<mapsto> b)
                             else stateful_sets w)"
    and "faults w = [] \<Longrightarrow>
           r = (if stateful_sets w (ns, meta_name (sts_metadata b)) = None then Inr () else Inl (Api already_exists))"
  using assms
  by (auto simp: create_namespaced_stateful_set_def next_fault_def record_call_def out_of_def Let_def
           split: list.splits option.splits if_splits)

section \<open>The paths through \<open>create_fn\<close>\<close>

text \<open>
  \<open>create_fn\<close> ends in one of four ways: an exception leaves it after the first, the
  second or the third call, or it returns after all three.
\<close>

lemma result_cases:
  fixes r :: "py_exception + unit"
  obtains (ok) "r = Inr ()" | (api) e where "r = Inl (Api e)" | (other) c where "r = Inl (NotApi c)"
proof (cases r)
  case (Inl x)
  then show ?thesis by (cases x) (auto intro: api other)
next
  case (Inr u)
  then show ?thesis by (auto intro: ok)
qed

lemma goes_on_simps [simp]:
  "goes_on (Inr u)"
  "goes_on (Inl (Api e)) = (status e = 409)"
  "\<not> goes_on (Inl (NotApi c))"
  by (simp_all add: goes_on_def)

lemma not_goes_onE:
  assumes "\<not> goes_on r"
  obtains x where "r = Inl x" "\<not> goes_on (Inl x)"
  using assms by (cases r) (auto simp: goes_on_def)

lemma create_fn_cases:
  obtains
    (abort1) x w1 where
      "create_namespaced_service (logger_info (create_banner spec name) w) ns (svc_of name ns) = (Inl x, w1)"
      "\<not> goes_on (Inl x)"
      "create_fn w spec name ns = (Inl x, w1)"
  | (abort2) r1 w1 x w2 where
      "create_namespaced_service (logger_info (create_banner spec name) w) ns (svc_of name ns) = (r1, w1)"
      "goes_on r1"
      "create_namespaced_config_map (logger_info (created_msg ''Service'' (name @ ''-svc'') r1) w1) ns (cm_of spec name ns) = (Inl x, w2)"
      "\<not> goes_on (Inl x)"
      "create_fn w spec name ns = (Inl x, w2)"
  | (abort3) r1 w1 r2 w2 x w3 where
      "create_namespaced_service (logger_info (create_banner spec name) w) ns (svc_of name ns) = (r1, w1)"
      "goes_on r1"
      "create_namespaced_config_map (logger_info (created_msg ''Service'' (name @ ''-svc'') r1) w1) ns (cm_of spec name ns) = (r2, w2)"
      "goes_on r2"
      "create_namespaced_stateful_set (logger_info (created_msg ''ConfigMap'' (name @ ''-cm'') r2) w2) ns (sts_of spec name ns) = (Inl x, w3)"
      "\<not> goes_on (Inl x)"
      "create_fn w spec name ns = (Inl x, w3)"
  | (finished) r1 w1 r2 w2 r3 w3 where
      "create_namespaced_service (logger_info (create_banner spec name) w) ns (svc_of name ns) = (r1, w1)"
      "goes_on r1"
      "create_namespaced_config_map (logger_info (created_msg ''Service'' (name @ ''-svc'') r1) w1) ns (cm_of spec name ns) = (r2, w2)"
      "goes_on r2"
      "create_namespaced_stateful_set (logger_info (created_msg ''ConfigMap'' (name @ ''-cm'') r2) w2) ns (sts_of spec name ns) = (r3, w3)"
      "goes_on r3"
      "create_fn w spec name ns = (Inr (create_ret name), logger_info (created_msg ''StatefulSet'' (name @ ''-sts'') r3) w3)"
proof -
  obtain r1 w1 where s1:
    "create_namespaced_service (logger_info (create_banner spec name) w) ns (svc_of name ns) = (r1, w1)"
    by (cases "create_namespaced_service (logger_info (create_banner spec name) w) ns (svc_of name ns)")
  obtain r2 w2 where s2:
    "create_namespaced_config_map (logger_info (created_msg ''Service'' (name @ ''-svc'') r1) w1) ns (cm_of spec name ns) = (r2, w2)"
    by (cases "create_namespaced_config_map (logger_info (created_msg ''Service'' (name @ ''-svc'') r1) w1) ns (cm_of spec name ns)")
  obtain r3 w3 where s3:
    "create_namespaced_stateful_set (logger_info (created_msg ''ConfigMap'' (name @ ''-cm'') r2) w2) ns (sts_of spec name ns) = (r3, w3)"
    by (cases "create_namespaced_stateful_set (logger_info (created_msg ''ConfigMap'' (name @ ''-cm'') r2) w2) ns (sts_of spec name ns)")
  show thesis
  proof (cases "goes_on r1")
    case False
    then obtain x where x: "r1 = Inl x" "\<not> goes_on (Inl x)" by (rule not_goes_onE)
    have "create_fn w spec name ns = (Inl x, w1)"
      using s1 x unfolding create_fn_def view_defs Let_def
      by (cases x) simp_all
    with s1 x show thesis by (auto intro: abort1)
  next
    case g1: True
    show thesis
    proof (cases "goes_on r2")
      case False
      then obtain x where x: "r2 = Inl x" "\<not> goes_on (Inl x)" by (rule not_goes_onE)
      have "create_fn w spec name ns = (Inl x, w2)"
        using s1 s2 x g1 unfolding create_fn_def view_defs Let_def
        by (cases r1 rule: result_cases; cases x) simp_all
      with s1 s2 x g1 show thesis by (auto intro: abort2)
    next
      case g2: True
      show thesis
      proof (cases "goes_on r3")
        case False
        then obtain x where x: "r3 = Inl x" "\<not> goes_on (Inl x)" by (rule not_goes_onE)
        have "create_fn w spec name ns = (Inl x, w3)"
          using s1 s2 s3 x g1 g2 unfolding create_fn_def view_defs Let_def
          by (cases r1 rule: result_cases; cases r2 rule: result_cases; cases x) simp_all
        with s1 s2 s3 x g1 g2 show thesis by (auto intro: abort3)
      next
        case g3: True
        have "create_fn w spec name ns = (Inr (create_ret name), logger_info (created_msg ''StatefulSet'' (name @ ''-sts'') r3) w3)"
          using s1 s2 s3 g1 g2 g3 unfolding create_fn_def view_defs Let_def
          by (cases r1 rule: result_cases; cases r2 rule: result_cases;
              cases r3 rule: result_cases) simp_all
        with s1 s2 s3 g1 g2 g3 show thesis by (auto intro: finished)
      qed
    qed
  qed
qed

section \<open>\<open>create_fn\<close> on a cluster without faults\<close>

lemma new_calls_append [simp]: "calls w' = calls w @ xs \<Longrightarrow> new_calls w w' = xs"
  by (simp add: new_calls_def)

lemma manifest_names [simp]:
  "meta_name (svc_metadata (svc_of name ns)) = name @ ''-svc''"
  "meta_name (cm_metadata (cm_of spec name ns)) = name @ ''-cm''"
  "meta_name (sts_metadata (sts_of spec name ns)) = name @ ''-sts''"
  by (simp_all add: svc_of_def cm_of_def sts_of_def service_manifest_def configmap_manifest_def
        statefulset_manifest_def Let_def)

lemma status_already_exists [simp]: "status already_exists = 409"
  by (simp add: already_exists_def)

lemma out_of_simps [simp]: "out_of (Inr u) = Returned" "out_of (Inl e) = Raised e"
  by (simp_all add: out_of_def)

lemma create_fn_no_faults:
  assumes nf: "faults w = []"
  shows "fst (create_fn w spec name ns) = Inr (create_ret name)"
    and "services (snd (create_fn w spec name ns)) =
           (if services w (ns, name @ ''-svc'') = None
            then (services w)((ns, name @ ''-svc'') \<mapsto> svc_of name ns) else services w)"
    and "config_maps (snd (create_fn w spec name ns)) =
           (if config_maps w (ns, name @ ''-cm'') = None
            then (config_maps w)((ns, name @ ''-cm'') \<mapsto> cm_of spec name ns) else config_maps w)"
    and "stateful_sets (snd (create_fn w spec name ns)) =
           (if stateful_sets w (ns, name @ ''-sts'') = None
            then (stateful_sets w)((ns, name @ ''-sts'') \<mapsto> sts_of spec name ns)
            else stateful_sets w)"
    and "faults (snd (create_fn w spec name ns)) = []"
    and "new_calls w (snd (create_fn w spec name ns)) =
           [(CreateService ns (svc_of name ns),
               if services w (ns, name @ ''-svc'') = None then Returned else Raised (Api already_exists)),
            (CreateConfigMap ns (cm_of spec name ns),
               if config_maps w (ns, name @ ''-cm'') = None then Returned else Raised (Api already_exists)),
            (CreateStatefulSet ns (sts_of spec name ns),
               if stateful_sets w (ns, name @ ''-sts'') = None then Returned
               else Raised (Api already_exists))]"
proof -
  have all: "fst (create_fn w spec name ns) = Inr (create_ret name)
    \<and> services (snd (create_fn w spec name ns)) =
           (if services w (ns, name @ ''-svc'') = None
            then (services w)((ns, name @ ''-svc'') \<mapsto> svc_of name ns) else services w)
    \<and> config_maps (snd (create_fn w spec name ns)) =
           (if config_maps w (ns, name @ ''-cm'') = None
            then (config_maps w)((ns, name @ ''-cm'') \<mapsto> cm_of spec name ns) else config_maps w)
    \<and> stateful_sets (snd (create_fn w spec name ns)) =
           (if stateful_sets w (ns, name @ ''-sts'') = None
            then (stateful_sets w)((ns, name @ ''-sts'') \<mapsto> sts_of spec name ns)
            else stateful_sets w)
    \<and> faults (snd (create_fn w spec name ns)) = []
    \<and> new_calls w (snd (create_fn w spec name ns)) =
           [(CreateService ns (svc_of name ns),
               if services w (ns, name @ ''-svc'') = None then Returned else Raised (Api already_exists)),
            (CreateConfigMap ns (cm_of spec name ns),
               if config_maps w (ns, name @ ''-cm'') = None then Returned else Raised (Api already_exists)),
            (CreateStatefulSet ns (sts_of spec name ns),
               if stateful_sets w (ns, name @ ''-sts'') = None then Returned
               else Raised (Api already_exists))]"
  proof (cases w spec name ns rule: create_fn_cases)
    case (abort1 e w1)
    note f = create_service_facts[OF abort1(1)]
    from f(7) nf abort1(2) show ?thesis by (simp split: if_splits)
  next
    case (abort2 r1 w1 e w2)
    note f = create_service_facts[OF abort2(1)]
    note g = create_config_map_facts[OF abort2(3)]
    have "faults w1 = []" using f(5) nf by simp
    with g(7) abort2(4) show ?thesis by (simp split: if_splits)
  next
    case (abort3 r1 w1 r2 w2 e w3)
    note f = create_service_facts[OF abort3(1)]
    note g = create_config_map_facts[OF abort3(3)]
    note h = create_stateful_set_facts[OF abort3(5)]
    have "faults w1 = []" using f(5) nf by simp
    then have "faults w2 = []" using g(5) by simp
    with h(7) abort3(6) show ?thesis by (simp split: if_splits)
  next
    case (finished r1 w1 r2 w2 r3 w3)
    note f = create_service_facts[OF finished(1)]
    note g = create_config_map_facts[OF finished(3)]
    note h = create_stateful_set_facts[OF finished(5)]
    have n1: "faults w1 = []" using f(5) nf by simp
    then have n2: "faults w2 = []" using g(5) by simp
    then have n3: "faults w3 = []" using h(5) by simp
    have r1: "r1 = (if services w (ns, name @ ''-svc'') = None then Inr () else Inl (Api already_exists))"
      using f(7) nf by simp
    have r2: "r2 = (if config_maps w (ns, name @ ''-cm'') = None then Inr () else Inl (Api already_exists))"
      using g(7) n1 f(3) by simp
    have r3: "r3 = (if stateful_sets w (ns, name @ ''-sts'') = None then Inr () else Inl (Api already_exists))"
      using h(7) n2 g(4) f(4) by simp
    have c: "calls w3 = calls w @ [(CreateService ns (svc_of name ns), out_of r1),
        (CreateConfigMap ns (cm_of spec name ns), out_of r2),
        (CreateStatefulSet ns (sts_of spec name ns), out_of r3)]"
      using f(1) g(1) h(1) by simp
    have s: "services w3 = (if r1 = Inr () then (services w)((ns, name @ ''-svc'') \<mapsto> svc_of name ns) else services w)"
      using f(6) g(3) h(3) by simp
    have m: "config_maps w3 = (if r2 = Inr () then (config_maps w)((ns, name @ ''-cm'') \<mapsto> cm_of spec name ns) else config_maps w)"
      using f(3) g(6) h(4) by simp
    have t: "stateful_sets w3 = (if r3 = Inr () then (stateful_sets w)((ns, name @ ''-sts'') \<mapsto> sts_of spec name ns) else stateful_sets w)"
      using f(4) g(4) h(6) by simp
    show ?thesis
      unfolding finished(7) using c s m t n3 r1 r2 r3 by simp
  qed
  from all show "fst (create_fn w spec name ns) = Inr (create_ret name)" by blast
  from all show "services (snd (create_fn w spec name ns)) =
           (if services w (ns, name @ ''-svc'') = None
            then (services w)((ns, name @ ''-svc'') \<mapsto> svc_of name ns) else services w)" by blast
  from all show "config_maps (snd (create_fn w spec name ns)) =
           (if config_maps w (ns, name @ ''-cm'') = None
            then (config_maps w)((ns, name @ ''-cm'') \<mapsto> cm_of spec name ns) else config_maps w)" by blast
  from all show "stateful_sets (snd (create_fn w spec name ns)) =
           (if stateful_sets w (ns, name @ ''-sts'') = None
            then (stateful_sets w)((ns, name @ ''-sts'') \<mapsto> sts_of spec name ns)
            else stateful_sets w)" by blast
  from all show "faults (snd (create_fn w spec name ns)) = []" by blast
  from all show "new_calls w (snd (create_fn w spec name ns)) =
           [(CreateService ns (svc_of name ns),
               if services w (ns, name @ ''-svc'') = None then Returned else Raised (Api already_exists)),
            (CreateConfigMap ns (cm_of spec name ns),
               if config_maps w (ns, name @ ''-cm'') = None then Returned else Raised (Api already_exists)),
            (CreateStatefulSet ns (sts_of spec name ns),
               if stateful_sets w (ns, name @ ''-sts'') = None then Returned
               else Raised (Api already_exists))]" by blast
qed

lemma goes_on_absorbed: "goes_on r = absorbed (out_of r)"
  by (cases r rule: result_cases) (simp_all add: absorbed_def)

section \<open>The paths through \<open>update_fn\<close> and \<open>delete_fn\<close>\<close>

lemma caught_simps [simp]:
  "caught Returned"
  "caught (Raised (Api e))"
  "\<not> caught (Raised (NotApi c))"
  by (simp_all add: caught_def)

lemma lines_not_api [simp]:
  "delete_lines n (Raised (NotApi c)) = []"
  "patch_lines kind n (Raised (NotApi c)) = []"
  by (simp_all add: delete_lines_def patch_lines_def)

lemma not_caughtE:
  assumes "\<not> caught (out_of r)"
  obtains c where "r = Inl (NotApi c)"
  using assms by (cases r rule: result_cases) auto

lemma after_fields [simp]:
  "services (after_sts_patch n r w) = services w"
  "config_maps (after_sts_patch n r w) = config_maps w"
  "stateful_sets (after_sts_patch n r w) = stateful_sets w"
  "faults (after_sts_patch n r w) = faults w"
  "calls (after_sts_patch n r w) = calls w"
  "logged (after_sts_patch n r w) = logged w @ patch_lines ''StatefulSet'' (n @ ''-sts'') (out_of r)"
  "services (after_cm_patch n r w) = services w"
  "config_maps (after_cm_patch n r w) = config_maps w"
  "stateful_sets (after_cm_patch n r w) = stateful_sets w"
  "faults (after_cm_patch n r w) = faults w"
  "calls (after_cm_patch n r w) = calls w"
  "logged (after_cm_patch n r w) = logged w @ patch_lines ''ConfigMap'' (n @ ''-cm'') (out_of r)"
  "services (after_delete n r w) = services w"
  "config_maps (after_delete n r w) = config_maps w"
  "stateful_sets (after_delete n r w) = stateful_sets w"
  "faults (after_delete n r w) = faults w"
  "calls (after_delete n r w) = calls w"
  "logged (after_delete n r w) = logged w @ delete_lines n (out_of r)"
  by (simp_all add: after_sts_patch_def after_cm_patch_def after_delete_def)

lemma log_changes_fields [simp]:
  "services (log_changes w diff) = services w"
  "config_maps (log_changes w diff) = config_maps w"
  "stateful_sets (log_changes w diff) = stateful_sets w"
  "faults (log_changes w diff) = faults w"
  "calls (log_changes w diff) = calls w"
  unfolding log_changes_def
  by (induction diff arbitrary: w; simp add: case_prod_beta)+

lemma log_changes_logged:
  "logged (log_changes w diff) = logged w @
     map (\<lambda>(op, field, old, new).
            (KopfLogger, INFO, ''Detected change in '' @ field @ '': '' @ old @ '' -> '' @ new)) diff"
  unfolding log_changes_def
  by (induction diff arbitrary: w) (simp_all add: case_prod_beta)

lemma patch_stateful_set_facts:
  assumes "patch_namespaced_stateful_set w n ns b = (r, w')"
  shows "calls w' = calls w @ [(PatchStatefulSet n ns b, out_of r)]"
    and "logged w' = logged w"
    and "services w' = services w"
    and "config_maps w' = config_maps w"
    and "faults w' = tl (faults w)"
    and "stateful_sets w' =
           (case stateful_sets w (ns, n) of
              Some sts \<Rightarrow> if r = Inr () then (stateful_sets w)((ns, n) \<mapsto> apply_sts_patch b sts)
                          else stateful_sets w
            | None \<Rightarrow> stateful_sets w)"
    and "faults w = [] \<Longrightarrow> r = (if stateful_sets w (ns, n) = None then Inl (Api not_found) else Inr ())"
  using assms
  by (auto simp: patch_namespaced_stateful_set_def next_fault_def record_call_def Let_def
           split: list.splits option.splits if_splits)

lemma patch_config_map_facts:
  assumes "patch_namespaced_config_map w n ns b = (r, w')"
  shows "calls w' = calls w @ [(PatchConfigMap n ns b, out_of r)]"
    and "logged w' = logged w"
    and "services w' = services w"
    and "stateful_sets w' = stateful_sets w"
    and "faults w' = tl (faults w)"
    and "config_maps w' =
           (case config_maps w (ns, n) of
              Some cm \<Rightarrow> if r = Inr () then (config_maps w)((ns, n) \<mapsto> apply_cm_patch b cm)
                         else config_maps w
            | None \<Rightarrow> config_maps w)"
    and "faults w = [] \<Longrightarrow> r = (if config_maps w (ns, n) = None then Inl (Api not_found) else Inr ())"
  using assms
  by (auto simp: patch_namespaced_config_map_def next_fault_def record_call_def Let_def
           split: list.splits option.splits if_splits)

lemma delete_service_facts:
  assumes "delete_namespaced_service w n ns = (r, w')"
  shows "calls w' = calls w @ [(DeleteService n ns, out_of r)]"
    and "logged w' = logged w"
    and "config_maps w' = config_maps w"
    and "stateful_sets w' = stateful_sets w"
    and "faults w' = tl (faults w)"
    and "services w' = (if r = Inr () then (services w)((ns, n) := None) else services w)"
    and "faults w = [] \<Longrightarrow> r = (if services w (ns, n) = None then Inl (Api not_found) else Inr ())"
  using assms
  by (auto simp: delete_namespaced_service_def next_fault_def record_call_def Let_def
           split: list.splits option.splits if_splits)

lemma delete_stateful_set_facts:
  assumes "delete_namespaced_stateful_set w n ns = (r, w')"
  shows "calls w' = calls w @ [(DeleteStatefulSet n ns, out_of r)]"
    and "logged w' = logged w"
    and "services w' = services w"
    and "config_maps w' = config_maps w"
    and "faults w' = tl (faults w)"
    and "stateful_sets w' = (if r = Inr () then (stateful_sets w)((ns, n) := None) else stateful_sets w)"
    and "faults w = [] \<Longrightarrow> r = (if stateful_sets w (ns, n) = None then Inl (Api not_found) else Inr ())"
  using assms
  by (auto simp: delete_namespaced_stateful_set_def next_fault_def record_call_def Let_def
           split: list.splits option.splits if_splits)

lemma delete_config_map_facts:
  assumes "delete_namespaced_config_map w n ns = (r, w')"
  shows "calls w' = calls w @ [(DeleteConfigMap n ns, out_of r)]"
    and "logged w' = logged w"
    and "services w' = services w"
    and "stateful_sets w' = stateful_sets w"
    and "faults w' = tl (faults w)"
    and "config_maps w' = (if r = Inr () then (config_maps w)((ns, n) := None) else config_maps w)"
    and "faults w = [] \<Longrightarrow> r = (if config_maps w (ns, n) = None then Inl (Api not_found) else Inr ())"
  using assms
  by (auto simp: delete_namespaced_config_map_def next_fault_def record_call_def Let_def
           split: list.splits option.splits if_splits)

lemma update_fn_cases:
  obtains
    (abort1) c w1 where
      "patch_namespaced_stateful_set (log_changes w diff) (name @ ''-sts'') ns (sts_body spec) = (Inl (NotApi c), w1)"
      "update_fn w spec name ns diff = (Inl (NotApi c), w1)"
  | (abort2) r1 w1 c w2 where
      "patch_namespaced_stateful_set (log_changes w diff) (name @ ''-sts'') ns (sts_body spec) = (r1, w1)"
      "caught (out_of r1)"
      "patch_namespaced_config_map (after_sts_patch name r1 w1) (name @ ''-cm'') ns (cm_body spec) = (Inl (NotApi c), w2)"
      "update_fn w spec name ns diff = (Inl (NotApi c), w2)"
  | (finished) r1 w1 r2 w2 where
      "patch_namespaced_stateful_set (log_changes w diff) (name @ ''-sts'') ns (sts_body spec) = (r1, w1)"
      "caught (out_of r1)"
      "patch_namespaced_config_map (after_sts_patch name r1 w1) (name @ ''-cm'') ns (cm_body spec) = (r2, w2)"
      "caught (out_of r2)"
      "update_fn w spec name ns diff = (Inr (), after_cm_patch name r2 w2)"
proof -
  obtain r1 w1 where s1: "patch_namespaced_stateful_set (log_changes w diff) (name @ ''-sts'') ns (sts_body spec) = (r1, w1)"
    by (cases "patch_namespaced_stateful_set (log_changes w diff) (name @ ''-sts'') ns (sts_body spec)")
  obtain r2 w2 where s2: "patch_namespaced_config_map (after_sts_patch name r1 w1) (name @ ''-cm'') ns (cm_body spec) = (r2, w2)"
    by (cases "patch_namespaced_config_map (after_sts_patch name r1 w1) (name @ ''-cm'') ns (cm_body spec)")
  show thesis
  proof (cases "caught (out_of r1)")
    case False
    then obtain c where c: "r1 = Inl (NotApi c)" by (rule not_caughtE)
    have "update_fn w spec name ns diff = (Inl (NotApi c), w1)"
      using s1 c
      unfolding update_fn_def log_changes_def sts_body_def Let_def
      by simp
    with s1 c show thesis by (auto intro: abort1)
  next
    case g1: True
    show thesis
    proof (cases "caught (out_of r2)")
      case False
      then obtain c where c: "r2 = Inl (NotApi c)" by (rule not_caughtE)
      have "update_fn w spec name ns diff = (Inl (NotApi c), w2)"
        using s1 s2 c g1
        unfolding update_fn_def log_changes_def sts_body_def cm_body_def after_sts_patch_def
          patch_lines_def logging_info_def logging_error_def Let_def
        by (cases r1 rule: result_cases) simp_all
      with s1 s2 c g1 show thesis by (auto intro: abort2)
    next
      case g2: True
      have "update_fn w spec name ns diff = (Inr (), after_cm_patch name r2 w2)"
        using s1 s2 g1 g2
        unfolding update_fn_def log_changes_def sts_body_def cm_body_def after_sts_patch_def
          after_cm_patch_def patch_lines_def logging_info_def logging_error_def Let_def
        by (cases r1 rule: result_cases; cases r2 rule: result_cases) simp_all
      with s1 s2 g1 g2 show thesis by (auto intro: finished)
    qed
  qed
qed

lemma delete_loop_step:
  "fn w n ns = (r, w1) \<Longrightarrow> caught (out_of r) \<Longrightarrow>
     delete_loop w ns ((fn, n) # rest) = delete_loop (after_delete n r w1) ns rest"
  by (cases r rule: result_cases)
     (simp_all add: after_delete_def delete_lines_def logger_info_def logger_error_def)

lemma delete_loop_stop:
  "fn w n ns = (Inl (NotApi c), w1) \<Longrightarrow>
     delete_loop w ns ((fn, n) # rest) = (Inl (NotApi c), w1)"
  by simp

lemma delete_fn_cases:
  obtains
    (abort1) c w1 where
      "delete_namespaced_service w (name @ ''-svc'') ns = (Inl (NotApi c), w1)"
      "delete_fn w spec name ns = (Inl (NotApi c), w1)"
  | (abort2) r1 w1 c w2 where
      "delete_namespaced_service w (name @ ''-svc'') ns = (r1, w1)"
      "caught (out_of r1)"
      "delete_namespaced_stateful_set (after_delete (name @ ''-svc'') r1 w1) (name @ ''-sts'') ns = (Inl (NotApi c), w2)"
      "delete_fn w spec name ns = (Inl (NotApi c), w2)"
  | (abort3) r1 w1 r2 w2 c w3 where
      "delete_namespaced_service w (name @ ''-svc'') ns = (r1, w1)"
      "caught (out_of r1)"
      "delete_namespaced_stateful_set (after_delete (name @ ''-svc'') r1 w1) (name @ ''-sts'') ns = (r2, w2)"
      "caught (out_of r2)"
      "delete_namespaced_config_map (after_delete (name @ ''-sts'') r2 w2) (name @ ''-cm'') ns = (Inl (NotApi c), w3)"
      "delete_fn w spec name ns = (Inl (NotApi c), w3)"
  | (finished) r1 w1 r2 w2 r3 w3 where
      "delete_namespaced_service w (name @ ''-svc'') ns = (r1, w1)"
      "caught (out_of r1)"
      "delete_namespaced_stateful_set (after_delete (name @ ''-svc'') r1 w1) (name @ ''-sts'') ns = (r2, w2)"
      "caught (out_of r2)"
      "delete_namespaced_config_map (after_delete (name @ ''-sts'') r2 w2) (name @ ''-cm'') ns = (r3, w3)"
      "caught (out_of r3)"
      "delete_fn w spec name ns = (Inr (), after_delete (name @ ''-cm'') r3 w3)"
proof -
  obtain r1 w1 where s1: "delete_namespaced_service w (name @ ''-svc'') ns = (r1, w1)"
    by (cases "delete_namespaced_service w (name @ ''-svc'') ns")
  obtain r2 w2 where s2: "delete_namespaced_stateful_set (after_delete (name @ ''-svc'') r1 w1) (name @ ''-sts'') ns = (r2, w2)"
    by (cases "delete_namespaced_stateful_set (after_delete (name @ ''-svc'') r1 w1) (name @ ''-sts'') ns")
  obtain r3 w3 where s3: "delete_namespaced_config_map (after_delete (name @ ''-sts'') r2 w2) (name @ ''-cm'') ns = (r3, w3)"
    by (cases "delete_namespaced_config_map (after_delete (name @ ''-sts'') r2 w2) (name @ ''-cm'') ns")
  show thesis
  proof (cases "caught (out_of r1)")
    case False
    then obtain c where c: "r1 = Inl (NotApi c)" by (rule not_caughtE)
    have "delete_fn w spec name ns = (Inl (NotApi c), w1)"
      unfolding delete_fn_def Let_def
      by (simp only: delete_loop_stop[where fn = delete_namespaced_service, OF s1[unfolded c]])
    with s1 c show thesis by (auto intro: abort1)
  next
    case g1: True
    show thesis
    proof (cases "caught (out_of r2)")
      case False
      then obtain c where c: "r2 = Inl (NotApi c)" by (rule not_caughtE)
      have "delete_fn w spec name ns = (Inl (NotApi c), w2)"
        unfolding delete_fn_def Let_def
        by (simp only: delete_loop_step[where fn = delete_namespaced_service, OF s1 g1]
              delete_loop_stop[where fn = delete_namespaced_stateful_set, OF s2[unfolded c]])
      with s1 s2 c g1 show thesis by (auto intro: abort2)
    next
      case g2: True
      show thesis
      proof (cases "caught (out_of r3)")
        case False
        then obtain c where c: "r3 = Inl (NotApi c)" by (rule not_caughtE)
        have "delete_fn w spec name ns = (Inl (NotApi c), w3)"
          unfolding delete_fn_def Let_def
          by (simp only: delete_loop_step[where fn = delete_namespaced_service, OF s1 g1]
                delete_loop_step[where fn = delete_namespaced_stateful_set, OF s2 g2]
                delete_loop_stop[where fn = delete_namespaced_config_map, OF s3[unfolded c]])
        with s1 s2 s3 c g1 g2 show thesis by (auto intro: abort3)
      next
        case g3: True
        have "delete_fn w spec name ns = (Inr (), after_delete (name @ ''-cm'') r3 w3)"
          unfolding delete_fn_def Let_def
          by (simp only: delete_loop_step[where fn = delete_namespaced_service, OF s1 g1]
                delete_loop_step[where fn = delete_namespaced_stateful_set, OF s2 g2]
                delete_loop_step[where fn = delete_namespaced_config_map, OF s3 g3]
                delete_loop.simps(1))
        with s1 s2 s3 g1 g2 g3 show thesis by (auto intro: finished)
      qed
    qed
  qed
qed

lemma new_logged_append [simp]: "logged w' = logged w @ xs \<Longrightarrow> new_logged w w' = xs"
  by (simp add: new_logged_def)

section \<open>Worlds whose faults are all \<open>ApiException\<close>\<close>

lemma api_only_faults: "faults w' = faults w \<Longrightarrow> api_only w' = api_only w"
  by (simp add: api_only_def)

lemma api_only_tl: "api_only w \<Longrightarrow> faults w' = tl (faults w) \<Longrightarrow> api_only w'"
  by (cases "faults w") (simp_all add: api_only_def)

lemma api_only_no_faults: "faults w = [] \<Longrightarrow> api_only w"
  by (simp add: api_only_def)

lemma api_only_after [simp]:
  "api_only (logger_info m w) = api_only w"
  "api_only (log_changes w diff) = api_only w"
  "api_only (after_sts_patch n r w) = api_only w"
  "api_only (after_cm_patch n r w) = api_only w"
  "api_only (after_delete n r w) = api_only w"
  by (simp_all add: api_only_def)

lemma caught_create_service:
  "api_only w \<Longrightarrow> create_namespaced_service w ns b = (r, w') \<Longrightarrow> caught (out_of r)"
  by (auto simp: create_namespaced_service_def next_fault_def record_call_def api_only_def Let_def
      split: list.splits option.splits if_splits py_exception.splits)

lemma caught_create_config_map:
  "api_only w \<Longrightarrow> create_namespaced_config_map w ns b = (r, w') \<Longrightarrow> caught (out_of r)"
  by (auto simp: create_namespaced_config_map_def next_fault_def record_call_def api_only_def Let_def
      split: list.splits option.splits if_splits py_exception.splits)

lemma caught_create_stateful_set:
  "api_only w \<Longrightarrow> create_namespaced_stateful_set w ns b = (r, w') \<Longrightarrow> caught (out_of r)"
  by (auto simp: create_namespaced_stateful_set_def next_fault_def record_call_def api_only_def Let_def
      split: list.splits option.splits if_splits py_exception.splits)

lemma caught_patch_stateful_set:
  "api_only w \<Longrightarrow> patch_namespaced_stateful_set w n ns b = (r, w') \<Longrightarrow> caught (out_of r)"
  by (auto simp: patch_namespaced_stateful_set_def next_fault_def record_call_def api_only_def Let_def
      split: list.splits option.splits if_splits py_exception.splits)

lemma caught_patch_config_map:
  "api_only w \<Longrightarrow> patch_namespaced_config_map w n ns b = (r, w') \<Longrightarrow> caught (out_of r)"
  by (auto simp: patch_namespaced_config_map_def next_fault_def record_call_def api_only_def Let_def
      split: list.splits option.splits if_splits py_exception.splits)

lemma caught_delete_service:
  "api_only w \<Longrightarrow> delete_namespaced_service w n ns = (r, w') \<Longrightarrow> caught (out_of r)"
  by (auto simp: delete_namespaced_service_def next_fault_def record_call_def api_only_def Let_def
      split: list.splits option.splits if_splits py_exception.splits)

lemma caught_delete_stateful_set:
  "api_only w \<Longrightarrow> delete_namespaced_stateful_set w n ns = (r, w') \<Longrightarrow> caught (out_of r)"
  by (auto simp: delete_namespaced_stateful_set_def next_fault_def record_call_def api_only_def Let_def
      split: list.splits option.splits if_splits py_exception.splits)

lemma caught_delete_config_map:
  "api_only w \<Longrightarrow> delete_namespaced_config_map w n ns = (r, w') \<Longrightarrow> caught (out_of r)"
  by (auto simp: delete_namespaced_config_map_def next_fault_def record_call_def api_only_def Let_def
      split: list.splits option.splits if_splits py_exception.splits)

section \<open>What each handler calls, in every world\<close>

lemma create_fn_trace:
  fixes w spec name ns
  defines "res \<equiv> fst (create_fn w spec name ns)"
    and "tr \<equiv> new_calls w (snd (create_fn w spec name ns))"
  shows "tr \<noteq> []
    \<and> prefix (map fst tr)
         [CreateService ns (svc_of name ns), CreateConfigMap ns (cm_of spec name ns),
          CreateStatefulSet ns (sts_of spec name ns)]
    \<and> list_all (\<lambda>(c, out). absorbed out) (butlast tr)
    \<and> (case snd (last tr) of
          Returned \<Rightarrow> length tr = 3 \<and> res = Inr (create_ret name)
        | Raised x \<Rightarrow> if absorbed (Raised x) then length tr = 3 \<and> res = Inr (create_ret name)
                      else res = Inl x)"
proof (cases w spec name ns rule: create_fn_cases)
  case (abort1 x w1)
  note f = create_service_facts[OF abort1(1)]
  have "tr = [(CreateService ns (svc_of name ns), Raised x)]"
    unfolding tr_def abort1(3) using f(1) by simp
  then show ?thesis using abort1 by (simp add: res_def goes_on_absorbed)
next
  case (abort2 r1 w1 x w2)
  note f = create_service_facts[OF abort2(1)]
  note g = create_config_map_facts[OF abort2(3)]
  have "tr = [(CreateService ns (svc_of name ns), out_of r1), (CreateConfigMap ns (cm_of spec name ns), Raised x)]"
    unfolding tr_def abort2(5) using f(1) g(1) by simp
  then show ?thesis using abort2 by (simp add: res_def goes_on_absorbed)
next
  case (abort3 r1 w1 r2 w2 x w3)
  note f = create_service_facts[OF abort3(1)]
  note g = create_config_map_facts[OF abort3(3)]
  note h = create_stateful_set_facts[OF abort3(5)]
  have "tr = [(CreateService ns (svc_of name ns), out_of r1), (CreateConfigMap ns (cm_of spec name ns), out_of r2),
     (CreateStatefulSet ns (sts_of spec name ns), Raised x)]"
    unfolding tr_def abort3(7) using f(1) g(1) h(1) by simp
  then show ?thesis using abort3 by (simp add: res_def goes_on_absorbed)
next
  case (finished r1 w1 r2 w2 r3 w3)
  note f = create_service_facts[OF finished(1)]
  note g = create_config_map_facts[OF finished(3)]
  note h = create_stateful_set_facts[OF finished(5)]
  have "tr = [(CreateService ns (svc_of name ns), out_of r1), (CreateConfigMap ns (cm_of spec name ns), out_of r2),
     (CreateStatefulSet ns (sts_of spec name ns), out_of r3)]"
    unfolding tr_def finished(7) using f(1) g(1) h(1) by simp
  then show ?thesis using finished
    by (cases r3 rule: result_cases) (simp_all add: res_def goes_on_absorbed)
qed

lemma update_fn_trace:
  fixes w spec name ns diff
  defines "res \<equiv> fst (update_fn w spec name ns diff)"
    and "w' \<equiv> snd (update_fn w spec name ns diff)"
  shows "new_calls w w' \<noteq> []
    \<and> prefix (map fst (new_calls w w')) [PatchStatefulSet (name @ ''-sts'') ns (sts_body spec), PatchConfigMap (name @ ''-cm'') ns (cm_body spec)]
    \<and> list_all (\<lambda>(c, out). caught out) (butlast (new_calls w w'))
    \<and> (case snd (last (new_calls w w')) of
          Raised (NotApi c) \<Rightarrow> res = Inl (NotApi c)
        | _ \<Rightarrow> length (new_calls w w') = 2 \<and> res = Inr ())
    \<and> (\<forall>e. (PatchStatefulSet (name @ ''-sts'') ns (sts_body spec), Raised (Api e)) \<in> set (new_calls w w') \<longrightarrow>
           (RootLogging, ERROR, ''Failed to update StatefulSet: '' @ str_of e)
             \<in> set (new_logged w w'))
    \<and> (\<forall>e. (PatchConfigMap (name @ ''-cm'') ns (cm_body spec), Raised (Api e)) \<in> set (new_calls w w') \<longrightarrow>
           (RootLogging, ERROR, ''Failed to update ConfigMap: '' @ str_of e)
             \<in> set (new_logged w w'))"
proof (cases rule: update_fn_cases[where w = w and spec = spec and name = name and ns = ns
    and diff = diff])
  case (abort1 c w1)
  note f = patch_stateful_set_facts[OF abort1(1)]
  have w': "w' = w1" by (simp add: w'_def abort1(2))
  have tr: "new_calls w w' = [(PatchStatefulSet (name @ ''-sts'') ns (sts_body spec), Raised (NotApi c))]"
    using f(1) by (simp add: w')
  show ?thesis unfolding tr by (simp add: res_def abort1(2))
next
  case (abort2 r1 w1 c w2)
  note f = patch_stateful_set_facts[OF abort2(1)]
  note g = patch_config_map_facts[OF abort2(3)]
  have w': "w' = w2" by (simp add: w'_def abort2(4))
  have tr: "new_calls w w' = [(PatchStatefulSet (name @ ''-sts'') ns (sts_body spec), out_of r1), (PatchConfigMap (name @ ''-cm'') ns (cm_body spec), Raised (NotApi c))]"
    using f(1) g(1) by (simp add: w')
  have l: "logged w' = logged w @
     (map (\<lambda>(op, field, old, new).
            (KopfLogger, INFO, ''Detected change in '' @ field @ '': '' @ old @ '' -> '' @ new)) diff
      @ patch_lines ''StatefulSet'' (name @ ''-sts'') (out_of r1))"
    using f(2) g(2) by (simp add: w' log_changes_logged)
  show ?thesis unfolding tr new_logged_append[OF l] using abort2(2)
    by (cases r1 rule: result_cases) (simp_all add: res_def abort2(4) patch_lines_def)
next
  case (finished r1 w1 r2 w2)
  note f = patch_stateful_set_facts[OF finished(1)]
  note g = patch_config_map_facts[OF finished(3)]
  have w': "w' = after_cm_patch name r2 w2" by (simp add: w'_def finished(5))
  have tr: "new_calls w w' = [(PatchStatefulSet (name @ ''-sts'') ns (sts_body spec), out_of r1), (PatchConfigMap (name @ ''-cm'') ns (cm_body spec), out_of r2)]"
    using f(1) g(1) by (simp add: w')
  have l: "logged w' = logged w @
     (map (\<lambda>(op, field, old, new).
            (KopfLogger, INFO, ''Detected change in '' @ field @ '': '' @ old @ '' -> '' @ new)) diff
      @ patch_lines ''StatefulSet'' (name @ ''-sts'') (out_of r1)
      @ patch_lines ''ConfigMap'' (name @ ''-cm'') (out_of r2))"
    using f(2) g(2) by (simp add: w' log_changes_logged)
  show ?thesis unfolding tr new_logged_append[OF l] using finished(2,4)
    by (cases r1 rule: result_cases; cases r2 rule: result_cases)
       (simp_all add: res_def finished(5) patch_lines_def)
qed

lemma update_fn_api_only:
  assumes "api_only w"
  shows "fst (update_fn w spec name ns diff) = Inr ()
    \<and> (\<exists>o1 o2. new_calls w (snd (update_fn w spec name ns diff)) = [(PatchStatefulSet (name @ ''-sts'') ns (sts_body spec), o1), (PatchConfigMap (name @ ''-cm'') ns (cm_body spec), o2)]
          \<and> caught o1 \<and> caught o2)"
proof (cases rule: update_fn_cases[where w = w and spec = spec and name = name and ns = ns
    and diff = diff])
  case (abort1 c w1)
  have "caught (out_of (Inl (NotApi c)))"
    using caught_patch_stateful_set[OF _ abort1(1)] assms by simp
  then show ?thesis by simp
next
  case (abort2 r1 w1 c w2)
  note f = patch_stateful_set_facts[OF abort2(1)]
  have "api_only w1" using api_only_tl[OF _ f(5)] assms by simp
  then have "caught (out_of (Inl (NotApi c)))"
    using caught_patch_config_map[OF _ abort2(3)] by simp
  then show ?thesis by simp
next
  case (finished r1 w1 r2 w2)
  note f = patch_stateful_set_facts[OF finished(1)]
  note g = patch_config_map_facts[OF finished(3)]
  have "new_calls w (snd (update_fn w spec name ns diff)) = [(PatchStatefulSet (name @ ''-sts'') ns (sts_body spec), out_of r1), (PatchConfigMap (name @ ''-cm'') ns (cm_body spec), out_of r2)]"
    using f(1) g(1) by (simp add: finished(5))
  then show ?thesis using finished(2,4) by (simp add: finished(5))
qed

lemma delete_fn_trace:
  fixes w spec name ns
  defines "res \<equiv> fst (delete_fn w spec name ns)"
    and "w' \<equiv> snd (delete_fn w spec name ns)"
  shows "new_calls w w' \<noteq> []
    \<and> prefix (map fst (new_calls w w')) [DeleteService (name @ ''-svc'') ns, DeleteStatefulSet (name @ ''-sts'') ns, DeleteConfigMap (name @ ''-cm'') ns]
    \<and> list_all (\<lambda>(c, out). caught out) (butlast (new_calls w w'))
    \<and> (case snd (last (new_calls w w')) of
          Raised (NotApi c) \<Rightarrow> res = Inl (NotApi c)
        | _ \<Rightarrow> length (new_calls w w') = 3 \<and> res = Inr ())
    \<and> new_logged w w' =
          concat (map (\<lambda>(c, out). delete_lines (snd (snd (call_target c))) out) (new_calls w w'))"
proof (cases rule: delete_fn_cases[where w = w and spec = spec and name = name and ns = ns])
  case (abort1 c w1)
  note f = delete_service_facts[OF abort1(1)]
  have w': "w' = w1" by (simp add: w'_def abort1(2))
  have tr: "new_calls w w' = [(DeleteService (name @ ''-svc'') ns, Raised (NotApi c))]"
    using f(1) by (simp add: w')
  have l: "logged w' = logged w @ []" using f(2) by (simp add: w')
  show ?thesis unfolding tr new_logged_append[OF l]
    by (simp add: res_def abort1(2))
next
  case (abort2 r1 w1 c w2)
  note f = delete_service_facts[OF abort2(1)]
  note g = delete_stateful_set_facts[OF abort2(3)]
  have w': "w' = w2" by (simp add: w'_def abort2(4))
  have tr: "new_calls w w' = [(DeleteService (name @ ''-svc'') ns, out_of r1), (DeleteStatefulSet (name @ ''-sts'') ns, Raised (NotApi c))]"
    using f(1) g(1) by (simp add: w')
  have l: "logged w' = logged w @ delete_lines (name @ ''-svc'') (out_of r1)"
    using f(2) g(2) by (simp add: w')
  show ?thesis unfolding tr new_logged_append[OF l] using abort2(2)
    by (simp add: res_def abort2(4))
next
  case (abort3 r1 w1 r2 w2 c w3)
  note f = delete_service_facts[OF abort3(1)]
  note g = delete_stateful_set_facts[OF abort3(3)]
  note h = delete_config_map_facts[OF abort3(5)]
  have w': "w' = w3" by (simp add: w'_def abort3(6))
  have tr: "new_calls w w' = [(DeleteService (name @ ''-svc'') ns, out_of r1), (DeleteStatefulSet (name @ ''-sts'') ns, out_of r2), (DeleteConfigMap (name @ ''-cm'') ns, Raised (NotApi c))]"
    using f(1) g(1) h(1) by (simp add: w')
  have l: "logged w' = logged w @ (delete_lines (name @ ''-svc'') (out_of r1)
             @ delete_lines (name @ ''-sts'') (out_of r2))"
    using f(2) g(2) h(2) by (simp add: w')
  show ?thesis unfolding tr new_logged_append[OF l] using abort3(2,4)
    by (simp add: res_def abort3(6))
next
  case (finished r1 w1 r2 w2 r3 w3)
  note f = delete_service_facts[OF finished(1)]
  note g = delete_stateful_set_facts[OF finished(3)]
  note h = delete_config_map_facts[OF finished(5)]
  have w': "w' = after_delete (name @ ''-cm'') r3 w3" by (simp add: w'_def finished(7))
  have tr: "new_calls w w' = [(DeleteService (name @ ''-svc'') ns, out_of r1), (DeleteStatefulSet (name @ ''-sts'') ns, out_of r2), (DeleteConfigMap (name @ ''-cm'') ns, out_of r3)]"
    using f(1) g(1) h(1) by (simp add: w')
  have l: "logged w' = logged w @ (delete_lines (name @ ''-svc'') (out_of r1)
             @ delete_lines (name @ ''-sts'') (out_of r2)
             @ delete_lines (name @ ''-cm'') (out_of r3))"
    using f(2) g(2) h(2) by (simp add: w')
  show ?thesis unfolding tr new_logged_append[OF l] using finished(2,4,6)
    by (cases r3 rule: result_cases) (simp_all add: res_def finished(7))
qed

lemma delete_fn_api_only:
  assumes "api_only w"
  shows "fst (delete_fn w spec name ns) = Inr ()
    \<and> (\<exists>o1 o2 o3. new_calls w (snd (delete_fn w spec name ns)) = [(DeleteService (name @ ''-svc'') ns, o1), (DeleteStatefulSet (name @ ''-sts'') ns, o2), (DeleteConfigMap (name @ ''-cm'') ns, o3)]
          \<and> caught o1 \<and> caught o2 \<and> caught o3)"
proof (cases rule: delete_fn_cases[where w = w and spec = spec and name = name and ns = ns])
  case (abort1 c w1)
  have "caught (out_of (Inl (NotApi c)))"
    using caught_delete_service[OF assms abort1(1)] by simp
  then show ?thesis by simp
next
  case (abort2 r1 w1 c w2)
  note f = delete_service_facts[OF abort2(1)]
  have "api_only w1" using api_only_tl[OF _ f(5)] assms by simp
  then have "caught (out_of (Inl (NotApi c)))"
    using caught_delete_stateful_set[OF _ abort2(3)] by simp
  then show ?thesis by simp
next
  case (abort3 r1 w1 r2 w2 c w3)
  note f = delete_service_facts[OF abort3(1)]
  note g = delete_stateful_set_facts[OF abort3(3)]
  have "api_only w1" using api_only_tl[OF _ f(5)] assms by simp
  then have "api_only w2" using api_only_tl[OF _ g(5)] by simp
  then have "caught (out_of (Inl (NotApi c)))"
    using caught_delete_config_map[OF _ abort3(5)] by simp
  then show ?thesis by simp
next
  case (finished r1 w1 r2 w2 r3 w3)
  note f = delete_service_facts[OF finished(1)]
  note g = delete_stateful_set_facts[OF finished(3)]
  note h = delete_config_map_facts[OF finished(5)]
  have "new_calls w (snd (delete_fn w spec name ns)) = [(DeleteService (name @ ''-svc'') ns, out_of r1), (DeleteStatefulSet (name @ ''-sts'') ns, out_of r2), (DeleteConfigMap (name @ ''-cm'') ns, out_of r3)]"
    using f(1) g(1) h(1) by (simp add: finished(7))
  then show ?thesis using finished(2,4,6) by (simp add: finished(7))
qed

lemma delete_fn_no_faults:
  assumes nf: "faults w = []"
  shows "fst (delete_fn w spec name ns) = Inr ()"
    and "services (snd (delete_fn w spec name ns)) = (services w)((ns, name @ ''-svc'') := None)"
    and "stateful_sets (snd (delete_fn w spec name ns)) = (stateful_sets w)((ns, name @ ''-sts'') := None)"
    and "config_maps (snd (delete_fn w spec name ns)) = (config_maps w)((ns, name @ ''-cm'') := None)"
    and "map snd (new_calls w (snd (delete_fn w spec name ns))) =
           [if services w (ns, name @ ''-svc'') = None then Raised (Api not_found) else Returned,
            if stateful_sets w (ns, name @ ''-sts'') = None then Raised (Api not_found) else Returned,
            if config_maps w (ns, name @ ''-cm'') = None then Raised (Api not_found) else Returned]"
proof -
  have all: "fst (delete_fn w spec name ns) = Inr ()
    \<and> services (snd (delete_fn w spec name ns)) = (services w)((ns, name @ ''-svc'') := None)
    \<and> stateful_sets (snd (delete_fn w spec name ns)) = (stateful_sets w)((ns, name @ ''-sts'') := None)
    \<and> config_maps (snd (delete_fn w spec name ns)) = (config_maps w)((ns, name @ ''-cm'') := None)
    \<and> map snd (new_calls w (snd (delete_fn w spec name ns))) =
           [if services w (ns, name @ ''-svc'') = None then Raised (Api not_found) else Returned,
            if stateful_sets w (ns, name @ ''-sts'') = None then Raised (Api not_found) else Returned,
            if config_maps w (ns, name @ ''-cm'') = None then Raised (Api not_found) else Returned]"
  proof (cases rule: delete_fn_cases[where w = w and spec = spec and name = name and ns = ns])
    case (abort1 c w1)
    note f = delete_service_facts[OF abort1(1)]
    from f(7) nf show ?thesis by (simp split: if_splits)
  next
    case (abort2 r1 w1 c w2)
    note f = delete_service_facts[OF abort2(1)]
    note g = delete_stateful_set_facts[OF abort2(3)]
    have "faults w1 = []" using f(5) nf by simp
    with g(7) show ?thesis by (simp split: if_splits)
  next
    case (abort3 r1 w1 r2 w2 c w3)
    note f = delete_service_facts[OF abort3(1)]
    note g = delete_stateful_set_facts[OF abort3(3)]
    note h = delete_config_map_facts[OF abort3(5)]
    have "faults w1 = []" using f(5) nf by simp
    then have "faults w2 = []" using g(5) by simp
    with h(7) show ?thesis by (simp split: if_splits)
  next
    case (finished r1 w1 r2 w2 r3 w3)
    note f = delete_service_facts[OF finished(1)]
    note g = delete_stateful_set_facts[OF finished(3)]
    note h = delete_config_map_facts[OF finished(5)]
    have n1: "faults w1 = []" using f(5) nf by simp
    then have n2: "faults w2 = []" using g(5) by simp
    have r1: "r1 = (if services w (ns, name @ ''-svc'') = None then Inl (Api not_found) else Inr ())"
      using f(7) nf by simp
    have r2: "r2 = (if stateful_sets w (ns, name @ ''-sts'') = None then Inl (Api not_found) else Inr ())"
      using g(7) n1 f(4) by simp
    have r3: "r3 = (if config_maps w (ns, name @ ''-cm'') = None then Inl (Api not_found) else Inr ())"
      using h(7) n2 g(4) f(3) by simp
    have c: "calls (snd (delete_fn w spec name ns)) = calls w @
        [(DeleteService (name @ ''-svc'') ns, out_of r1), (DeleteStatefulSet (name @ ''-sts'') ns, out_of r2), (DeleteConfigMap (name @ ''-cm'') ns, out_of r3)]"
      using f(1) g(1) h(1) by (simp add: finished(7))
    have s: "services (snd (delete_fn w spec name ns)) = (services w)((ns, name @ ''-svc'') := None)"
      using f(6) g(3) h(3) r1 by (auto simp: finished(7))
    have t: "stateful_sets (snd (delete_fn w spec name ns)) = (stateful_sets w)((ns, name @ ''-sts'') := None)"
      using f(4) g(6) h(4) r2 by (auto simp: finished(7))
    have m: "config_maps (snd (delete_fn w spec name ns)) = (config_maps w)((ns, name @ ''-cm'') := None)"
      using f(3) g(4) h(6) r3 by (auto simp: finished(7))
    have o: "map snd (new_calls w (snd (delete_fn w spec name ns))) =
           [if services w (ns, name @ ''-svc'') = None then Raised (Api not_found) else Returned,
            if stateful_sets w (ns, name @ ''-sts'') = None then Raised (Api not_found) else Returned,
            if config_maps w (ns, name @ ''-cm'') = None then Raised (Api not_found) else Returned]"
      using new_calls_append[OF c] r1 r2 r3 by simp
    have r: "fst (delete_fn w spec name ns) = Inr ()" by (simp add: finished(7))
    show ?thesis by (intro conjI; fact)
  qed
  from all show "fst (delete_fn w spec name ns) = Inr ()" by blast
  from all show "services (snd (delete_fn w spec name ns)) = (services w)((ns, name @ ''-svc'') := None)"
    by blast
  from all show "stateful_sets (snd (delete_fn w spec name ns)) = (stateful_sets w)((ns, name @ ''-sts'') := None)"
    by blast
  from all show "config_maps (snd (delete_fn w spec name ns)) = (config_maps w)((ns, name @ ''-cm'') := None)"
    by blast
  from all show "map snd (new_calls w (snd (delete_fn w spec name ns))) =
           [if services w (ns, name @ ''-svc'') = None then Raised (Api not_found) else Returned,
            if stateful_sets w (ns, name @ ''-sts'') = None then Raised (Api not_found) else Returned,
            if config_maps w (ns, name @ ''-cm'') = None then Raised (Api not_found) else Returned]"
    by blast
qed

section \<open>Small facts about text and about the ping loop\<close>

lemma str_int_small:
  "str_int 1 = ''1''" "str_int 30 = ''30''" "str_int 2 = ''2''" "str_int 3 = ''3''"
  "str_int 4 = ''4''" "str_int 10 = ''10''" "str_int 0 = ''0''"
  by (simp_all add: str_int_def str_nat.simps digit_char_def)

lemma map_fst_ping_range:
  "map fst (ping_range srv requests_get xs) = filter (\<lambda>i. i \<noteq> pod_number srv) xs"
  by (induction xs) (simp_all add: Let_def)

lemma ping_range_urls:
  "\<forall>(i, url, ans) \<in> set (ping_range srv requests_get xs). url = ping_url srv i \<and> ans = requests_get url"
  by (induction xs) (simp_all add: Let_def)

lemma pod_number_load_config [simp]: "pod_number (load_config srv file) = pod_number srv"
  by (simp add: load_config_def split: option.splits)


section \<open>\<open>update_fn\<close> on a cluster without faults\<close>

lemma update_fn_no_faults:
  assumes nf: "faults w = []"
  shows "services (snd (update_fn w spec name ns diff)) = services w"
    and "stateful_sets (snd (update_fn w spec name ns diff)) =
           (case stateful_sets w (ns, name @ ''-sts'') of
              None \<Rightarrow> stateful_sets w
            | Some sts \<Rightarrow> (stateful_sets w)((ns, name @ ''-sts'') \<mapsto> apply_sts_patch (sts_body spec) sts))"
    and "config_maps (snd (update_fn w spec name ns diff)) =
           (case config_maps w (ns, name @ ''-cm'') of
              None \<Rightarrow> config_maps w
            | Some cm \<Rightarrow> (config_maps w)((ns, name @ ''-cm'') \<mapsto> apply_cm_patch (cm_body spec) cm))"
    and "faults (snd (update_fn w spec name ns diff)) = []"
proof -
  have all: "services (snd (update_fn w spec name ns diff)) = services w
    \<and> stateful_sets (snd (update_fn w spec name ns diff)) =
           (case stateful_sets w (ns, name @ ''-sts'') of
              None \<Rightarrow> stateful_sets w
            | Some sts \<Rightarrow> (stateful_sets w)((ns, name @ ''-sts'') \<mapsto> apply_sts_patch (sts_body spec) sts))
    \<and> config_maps (snd (update_fn w spec name ns diff)) =
           (case config_maps w (ns, name @ ''-cm'') of
              None \<Rightarrow> config_maps w
            | Some cm \<Rightarrow> (config_maps w)((ns, name @ ''-cm'') \<mapsto> apply_cm_patch (cm_body spec) cm))
    \<and> faults (snd (update_fn w spec name ns diff)) = []"
  proof (cases rule: update_fn_cases[where w = w and spec = spec and name = name and ns = ns
      and diff = diff])
    case (abort1 c w1)
    note f = patch_stateful_set_facts[OF abort1(1)]
    from f(7) nf show ?thesis by (simp split: if_splits)
  next
    case (abort2 r1 w1 c w2)
    note f = patch_stateful_set_facts[OF abort2(1)]
    note g = patch_config_map_facts[OF abort2(3)]
    have "faults w1 = []" using f(5) nf by simp
    with g(7) show ?thesis by (simp split: if_splits)
  next
    case (finished r1 w1 r2 w2)
    note f = patch_stateful_set_facts[OF finished(1)]
    note g = patch_config_map_facts[OF finished(3)]
    have n1: "faults w1 = []" using f(5) nf by simp
    have r1: "r1 = (if stateful_sets w (ns, name @ ''-sts'') = None then Inl (Api not_found) else Inr ())"
      using f(7) nf by simp
    have r2: "r2 = (if config_maps w (ns, name @ ''-cm'') = None then Inl (Api not_found) else Inr ())"
      using g(7) n1 f(4) by simp
    have a: "services (snd (update_fn w spec name ns diff)) = services w"
      using f(3) g(3) by (simp add: finished(5))
    have b: "stateful_sets (snd (update_fn w spec name ns diff)) =
           (case stateful_sets w (ns, name @ ''-sts'') of
              None \<Rightarrow> stateful_sets w
            | Some sts \<Rightarrow> (stateful_sets w)((ns, name @ ''-sts'') \<mapsto> apply_sts_patch (sts_body spec) sts))"
      using f(6) g(4) r1 by (simp add: finished(5) split: option.splits)
    have c: "config_maps (snd (update_fn w spec name ns diff)) =
           (case config_maps w (ns, name @ ''-cm'') of
              None \<Rightarrow> config_maps w
            | Some cm \<Rightarrow> (config_maps w)((ns, name @ ''-cm'') \<mapsto> apply_cm_patch (cm_body spec) cm))"
      using f(4) g(6) r2 by (simp add: finished(5) split: option.splits)
    have d: "faults (snd (update_fn w spec name ns diff)) = []"
      using g(5) n1 by (simp add: finished(5))
    show ?thesis by (intro conjI; fact)
  qed
  from all show "services (snd (update_fn w spec name ns diff)) = services w" by blast
  from all show "stateful_sets (snd (update_fn w spec name ns diff)) =
           (case stateful_sets w (ns, name @ ''-sts'') of
              None \<Rightarrow> stateful_sets w
            | Some sts \<Rightarrow> (stateful_sets w)((ns, name @ ''-sts'') \<mapsto> apply_sts_patch (sts_body spec) sts))"
    by blast
  from all show "config_maps (snd (update_fn w spec name ns diff)) =
           (case config_maps w (ns, name @ ''-cm'') of
              None \<Rightarrow> config_maps w
            | Some cm \<Rightarrow> (config_maps w)((ns, name @ ''-cm'') \<mapsto> apply_cm_patch (cm_body spec) cm))"
    by blast
  from all show "faults (snd (update_fn w spec name ns diff)) = []" by blast
qed

lemma map_of_dict_set: "map_of (dict_set k v d) k = Some v"
  by (induction d) auto

lemma sts_replicas_patched:
  "sts_replicas (sts_spec (apply_sts_patch (sts_body spec) sts)) = spec_replicas spec"
  by (simp add: apply_sts_patch_def sts_body_def Let_def)

lemma cm_data_patched:
  "map_of (cm_data (apply_cm_patch (cm_body spec) cm)) ''config.yaml'' =
     Some (''replicas: '' @ fmt_opt_int (spec_replicas spec) @ ''\<newline>timer: ''
             @ fmt_opt_int (spec_timer spec) @ ''\<newline>'')"
  using map_of_dict_set[of "''config.yaml''" _ "cm_data cm"]
  by (simp add: apply_cm_patch_def cm_body_def CONFIG_KEY_def)

lemma update_propagates:
  assumes "faults w = []"
    and "stateful_sets w (ns, name @ ''-sts'') = Some sts"
    and "config_maps w (ns, name @ ''-cm'') = Some cm"
    and "spec_replicas spec = Some 4"
  shows "\<exists>sts' cm'.
           stateful_sets (snd (update_fn w spec name ns diff)) (ns, name @ ''-sts'') = Some sts'
         \<and> sts_replicas (sts_spec sts') = Some 4
         \<and> config_maps (snd (update_fn w spec name ns diff)) (ns, name @ ''-cm'') = Some cm'
         \<and> map_of (cm_data cm') ''config.yaml'' =
             Some (''replicas: 4\<newline>timer: '' @ fmt_opt_int (spec_timer spec) @ ''\<newline>'')"
  using update_fn_no_faults(2,3)[OF assms(1), of spec name ns diff] assms(2,3,4)
    sts_replicas_patched[of spec sts] cm_data_patched[of spec cm]
  by (simp add: fmt_opt_int_def str_int_small)

lemma image_only_update_explicit_fields:
  assumes "faults w = []"
    and "spec_replicas spec = Some r" and "spec_timer spec = Some t"
    and "spec_replicas spec' = Some r" and "spec_timer spec' = Some t"
    and "stateful_sets w (ns, name @ ''-sts'') = None"
    and "config_maps w (ns, name @ ''-cm'') = None"
  shows "\<exists>sts cm sts' cm'.
       stateful_sets (snd (create_fn w spec name ns)) (ns, name @ ''-sts'') = Some sts
     \<and> config_maps (snd (create_fn w spec name ns)) (ns, name @ ''-cm'') = Some cm
     \<and> stateful_sets (snd (update_fn (snd (create_fn w spec name ns)) spec' name ns diff))
          (ns, name @ ''-sts'') = Some sts'
     \<and> config_maps (snd (update_fn (snd (create_fn w spec name ns)) spec' name ns diff))
          (ns, name @ ''-cm'') = Some cm'
     \<and> sts_replicas (sts_spec sts') = sts_replicas (sts_spec sts)
     \<and> cm_data cm' = cm_data cm"
proof -
  let ?w1 = "snd (create_fn w spec name ns)"
  note a = create_fn_no_faults[OF assms(1), of spec name ns]
  have s1: "stateful_sets ?w1 (ns, name @ ''-sts'') = Some (sts_of spec name ns)"
    using a(4) assms(6) by simp
  have c1: "config_maps ?w1 (ns, name @ ''-cm'') = Some (cm_of spec name ns)"
    using a(3) assms(7) by simp
  note b = update_fn_no_faults[OF a(5), of spec' name ns diff]
  have s2: "stateful_sets (snd (update_fn ?w1 spec' name ns diff)) (ns, name @ ''-sts'') =
      Some (apply_sts_patch (sts_body spec') (sts_of spec name ns))"
    using b(2) s1 by simp
  have c2: "config_maps (snd (update_fn ?w1 spec' name ns diff)) (ns, name @ ''-cm'') =
      Some (apply_cm_patch (cm_body spec') (cm_of spec name ns))"
    using b(3) c1 by simp
  have r: "sts_replicas (sts_spec (apply_sts_patch (sts_body spec') (sts_of spec name ns))) =
      sts_replicas (sts_spec (sts_of spec name ns))"
    using assms(2,4) by (simp add: sts_replicas_patched sts_of_def statefulset_manifest_def Let_def)
  have d: "cm_data (apply_cm_patch (cm_body spec') (cm_of spec name ns)) = cm_data (cm_of spec name ns)"
    using assms(2,3,4,5)
    by (simp add: apply_cm_patch_def cm_body_def cm_of_def configmap_manifest_def Let_def
          fmt_opt_int_def)
  show ?thesis using s1 c1 s2 c2 r d by simp
qed


section \<open>Names and labels of the manifests\<close>

lemma create_fn_result:
  "(\<exists>e. fst (create_fn w spec name ns) = Inl e) \<or> fst (create_fn w spec name ns) = Inr (create_ret name)"
  using create_fn_trace[of w spec name ns]
  by (cases "snd (last (new_calls w (snd (create_fn w spec name ns))))") (auto split: if_splits)

lemma create_targets:
  "map call_target
     [CreateService ns (svc_of name ns), CreateConfigMap ns (cm_of spec name ns),
      CreateStatefulSet ns (sts_of spec name ns)] =
   [(''Service'', ns, name @ ''-svc''), (''ConfigMap'', ns, name @ ''-cm''),
    (''StatefulSet'', ns, name @ ''-sts'')]"
  by simp

lemma manifest_labels:
  "call_labels (CreateService ns (svc_of name ns)) = [[(''app'', name)], [(''app'', name)]]"
  "call_labels (CreateConfigMap ns (cm_of spec name ns)) = [[(''app'', name)]]"
  "call_labels (CreateStatefulSet ns (sts_of spec name ns)) =
     [[(''app'', name)], [(''app'', name)], [(''app'', name)]]"
  by (simp_all add: svc_of_def cm_of_def sts_of_def service_manifest_def configmap_manifest_def
        statefulset_manifest_def Let_def)


section \<open>\<open>str_int\<close> writes decimal notation\<close>

lemma digit_val_digit_char: "d < 10 \<Longrightarrow> digit_val (digit_char d) = d"
proof -
  assume "d < 10"
  then have "d \<in> {0, 1, 2, 3, 4, 5, 6, 7, 8, 9}" by auto
  then show ?thesis
    by (auto simp: digit_val_def digit_char_def)
qed

lemma read_nat_snoc: "read_nat (s @ [c]) = 10 * read_nat s + digit_val c"
  by (simp add: read_nat_def)

lemma read_nat_str_nat: "read_nat (str_nat n) = n"
proof (induction n rule: str_nat.induct)
  case (1 n)
  show ?case
  proof (cases "n < 10")
    case True
    then show ?thesis
      by (simp add: str_nat.simps[of n] read_nat_def digit_val_digit_char)
  next
    case False
    then have "read_nat (str_nat n) = 10 * read_nat (str_nat (n div 10)) + digit_val (digit_char (n mod 10))"
      by (simp add: str_nat.simps[of n] read_nat_snoc)
    also have "\<dots> = 10 * (n div 10) + n mod 10"
      using 1 False by (simp add: digit_val_digit_char)
    finally show ?thesis by simp
  qed
qed

lemma str_nat_digits: "set (str_nat n) \<subseteq> set ''0123456789''"
proof (induction n rule: str_nat.induct)
  case (1 n)
  have d: "\<And>d. d < 10 \<Longrightarrow> digit_char d \<in> set ''0123456789''"
    unfolding digit_char_def by (rule nth_mem) simp
  show ?case
  proof (cases "n < 10")
    case True
    then show ?thesis using d[of n] by (simp add: str_nat.simps[of n])
  next
    case False
    then show ?thesis using 1 d[of "n mod 10"] by (simp add: str_nat.simps[of n])
  qed
qed



section \<open>The requests of one pass of the ping loop\<close>

lemma str_nat_not_empty: "str_nat n \<noteq> []"
  by (subst str_nat.simps) simp

lemma str_nat_inj: "str_nat m = str_nat n \<Longrightarrow> m = n"
  by (metis read_nat_str_nat)

lemma str_nat_no_minus: "CHR ''-'' # s \<noteq> str_nat n"
proof
  assume "CHR ''-'' # s = str_nat n"
  then have "CHR ''-'' \<in> set (str_nat n)" by (metis list.set_intros(1))
  then show False using str_nat_digits[of n] by auto
qed

lemma str_int_inj: "str_int i = str_int j \<Longrightarrow> i = j"
proof -
  assume e: "str_int i = str_int j"
  show ?thesis
  proof (cases "i < 0"; cases "j < 0")
    assume "i < 0" "j < 0"
    then show ?thesis using e str_nat_inj[of "nat (- i)" "nat (- j)"] by (simp add: str_int_def)
  next
    assume "i < 0" "\<not> j < 0"
    then show ?thesis using e str_nat_no_minus[of "str_nat (nat (- i))" "nat j"]
      by (simp add: str_int_def)
  next
    assume "\<not> i < 0" "j < 0"
    then show ?thesis using e str_nat_no_minus[of "str_nat (nat (- j))" "nat i"]
      by (simp add: str_int_def)
  next
    assume "\<not> i < 0" "\<not> j < 0"
    then show ?thesis using e str_nat_inj[of "nat i" "nat j"] by (simp add: str_int_def)
  qed
qed

lemma ping_url_inj: "ping_url srv i = ping_url srv j \<Longrightarrow> i = j"
  by (rule str_int_inj) (simp add: ping_url_def)

lemma load_config_fields [simp]:
  "pod_prefix (load_config srv file) = pod_prefix srv"
  "service_name (load_config srv file) = service_name srv"
  by (simp_all add: load_config_def split: option.splits)

lemma ping_url_load_config [simp]: "ping_url (load_config srv file) i = ping_url srv i"
  by (simp add: ping_url_def)

lemma ping_range_eq:
  "ping_range srv requests_get xs =
     map (\<lambda>i. (i, ping_url srv i, requests_get (ping_url srv i)))
       (filter (\<lambda>i. i \<noteq> pod_number srv) xs)"
  by (induction xs) (simp_all add: Let_def)

section \<open>The properties of the specification\<close>

subsection \<open>The Create handler\<close>

text \<open>
  C1. On a cluster without faults, whatever subset of the three dependent objects already
  exists, \<open>create_fn\<close> returns without an error, creates exactly the missing objects (a
  call that finds its object gets 409, which is taken as success, and the object stays as
  it was), and a second run right after the first changes nothing in the store: all three
  of its calls get 409 and it returns the same names. So two runs in succession leave one
  Service, one ConfigMap and one StatefulSet under the derived names.
\<close>

theorem create_idempotent:
  fixes w spec name ns
  defines "w1 \<equiv> snd (create_fn w spec name ns)"
  defines "w2 \<equiv> snd (create_fn w1 spec name ns)"
  assumes nf: "faults w = []"
  shows "fst (create_fn w spec name ns) = Inr (create_ret name)
    \<and> fst (create_fn w1 spec name ns) = Inr (create_ret name)
    \<and> services w1 = (if services w (ns, name @ ''-svc'') = None
                      then (services w)((ns, name @ ''-svc'') \<mapsto> svc_of name ns) else services w)
    \<and> config_maps w1 = (if config_maps w (ns, name @ ''-cm'') = None
                      then (config_maps w)((ns, name @ ''-cm'') \<mapsto> cm_of spec name ns)
                      else config_maps w)
    \<and> stateful_sets w1 = (if stateful_sets w (ns, name @ ''-sts'') = None
                      then (stateful_sets w)((ns, name @ ''-sts'') \<mapsto> sts_of spec name ns)
                      else stateful_sets w)
    \<and> map snd (new_calls w w1) =
          [if services w (ns, name @ ''-svc'') = None then Returned else Raised (Api already_exists),
           if config_maps w (ns, name @ ''-cm'') = None then Returned else Raised (Api already_exists),
           if stateful_sets w (ns, name @ ''-sts'') = None then Returned else Raised (Api already_exists)]
    \<and> services w2 = services w1 \<and> config_maps w2 = config_maps w1
    \<and> stateful_sets w2 = stateful_sets w1
    \<and> map snd (new_calls w1 w2) =
          [Raised (Api already_exists), Raised (Api already_exists), Raised (Api already_exists)]"
proof -
  note a = create_fn_no_faults[OF nf, of spec name ns, folded w1_def]
  have nf1: "faults w1 = []" by (rule a(5))
  note b = create_fn_no_faults[OF nf1, of spec name ns, folded w2_def]
  have e1: "services w1 (ns, name @ ''-svc'') \<noteq> None" using a(2) by simp
  have e2: "config_maps w1 (ns, name @ ''-cm'') \<noteq> None" using a(3) by simp
  have e3: "stateful_sets w1 (ns, name @ ''-sts'') \<noteq> None" using a(4) by simp
  have r1: "fst (create_fn w spec name ns) = Inr (create_ret name)" by (rule a(1))
  have r2: "fst (create_fn w1 spec name ns) = Inr (create_ret name)" by (rule b(1))
  have s1: "services w1 = (if services w (ns, name @ ''-svc'') = None
                      then (services w)((ns, name @ ''-svc'') \<mapsto> svc_of name ns) else services w)"
    by (rule a(2))
  have m1: "config_maps w1 = (if config_maps w (ns, name @ ''-cm'') = None
                      then (config_maps w)((ns, name @ ''-cm'') \<mapsto> cm_of spec name ns)
                      else config_maps w)"
    by (rule a(3))
  have t1: "stateful_sets w1 = (if stateful_sets w (ns, name @ ''-sts'') = None
                      then (stateful_sets w)((ns, name @ ''-sts'') \<mapsto> sts_of spec name ns)
                      else stateful_sets w)"
    by (rule a(4))
  have c1: "map snd (new_calls w w1) =
          [if services w (ns, name @ ''-svc'') = None then Returned else Raised (Api already_exists),
           if config_maps w (ns, name @ ''-cm'') = None then Returned else Raised (Api already_exists),
           if stateful_sets w (ns, name @ ''-sts'') = None then Returned else Raised (Api already_exists)]"
    by (simp add: a(6))
  have s2: "services w2 = services w1" using b(2) e1 by simp
  have m2: "config_maps w2 = config_maps w1" using b(3) e2 by simp
  have t2: "stateful_sets w2 = stateful_sets w1" using b(4) e3 by simp
  have c2: "map snd (new_calls w1 w2) =
          [Raised (Api already_exists), Raised (Api already_exists), Raised (Api already_exists)]"
    using e1 e2 e3 by (simp add: b(6))
  show ?thesis by (intro conjI; fact)
qed


theorem create_idempotent_witness:
  "faults partial_cluster = []
   \<and> fst (create_fn partial_cluster foo_spec ''foo'' ''default'') =
        Inr [(''svc_name'', ''foo-svc''), (''sts_name'', ''foo-sts''), (''cm_name'', ''foo-cm'')]
   \<and> map snd (new_calls partial_cluster (snd (create_fn partial_cluster foo_spec ''foo'' ''default''))) =
        [Raised (Api already_exists), Raised (Api already_exists), Returned]
   \<and> stateful_sets (snd (create_fn partial_cluster foo_spec ''foo'' ''default'')) =
        [(''default'', ''foo-sts'') \<mapsto> sts_of foo_spec ''foo'' ''default'']
   \<and> fst (create_fn (snd (create_fn partial_cluster foo_spec ''foo'' ''default''))
             foo_spec ''foo'' ''default'') =
        Inr [(''svc_name'', ''foo-svc''), (''sts_name'', ''foo-sts''), (''cm_name'', ''foo-cm'')]"
proof -
  have h: "faults partial_cluster = []"
    by (simp add: partial_cluster_def empty_cluster_def)
  show ?thesis
    using h create_idempotent[OF h, of foo_spec "''foo''" "''default''"]
    by (simp add: partial_cluster_def empty_cluster_def create_ret_def)
qed

text \<open>
  C2. In every world (any store, any schedule of faults) the calls \<open>create_fn\<close> makes are
  a non-empty prefix of: create the Service, create the ConfigMap, create the StatefulSet.
  Every call but the last one made either returned or raised \<open>ApiException\<close> with status
  409. When the last call raised anything else (an \<open>ApiException\<close> of another status, or
  an exception of another class), the handler ends with that very exception; if not, all
  three calls were made and the handler returns the names.
\<close>

theorem create_order_and_abort:
  "new_calls w (snd (create_fn w spec name ns)) \<noteq> []
   \<and> prefix (map fst (new_calls w (snd (create_fn w spec name ns))))
        [CreateService ns (svc_of name ns), CreateConfigMap ns (cm_of spec name ns),
         CreateStatefulSet ns (sts_of spec name ns)]
   \<and> list_all (\<lambda>(c, out). absorbed out) (butlast (new_calls w (snd (create_fn w spec name ns))))
   \<and> (case snd (last (new_calls w (snd (create_fn w spec name ns)))) of
         Returned \<Rightarrow>
           length (new_calls w (snd (create_fn w spec name ns))) = 3
           \<and> fst (create_fn w spec name ns) = Inr (create_ret name)
       | Raised x \<Rightarrow>
           if absorbed (Raised x)
           then length (new_calls w (snd (create_fn w spec name ns))) = 3
                \<and> fst (create_fn w spec name ns) = Inr (create_ret name)
           else fst (create_fn w spec name ns) = Inl x)"
  by (rule create_fn_trace)

theorem create_order_and_abort_witness:
  "new_calls flaky_cluster (snd (create_fn flaky_cluster foo_spec ''foo'' ''default'')) =
     [(CreateService ''default'' (svc_of ''foo'' ''default''), Returned),
      (CreateConfigMap ''default'' (cm_of foo_spec ''foo'' ''default''), Raised (Api http_500))]
   \<and> \<not> absorbed (Raised (Api http_500))
   \<and> fst (create_fn flaky_cluster foo_spec ''foo'' ''default'') = Inl (Api http_500)"
proof -
  have tr: "new_calls flaky_cluster (snd (create_fn flaky_cluster foo_spec ''foo'' ''default'')) =
     [(CreateService ''default'' (svc_of ''foo'' ''default''), Returned),
      (CreateConfigMap ''default'' (cm_of foo_spec ''foo'' ''default''), Raised (Api http_500))]"
    by (simp add: create_fn_def flaky_cluster_def empty_cluster_def Let_def new_calls_def
          create_namespaced_service_def create_namespaced_config_map_def next_fault_def
          record_call_def logger_info_def http_500_def svc_of_def cm_of_def foo_spec_def
          service_manifest_def configmap_manifest_def)
  have na: "\<not> absorbed (Raised (Api http_500))"
    by (simp add: absorbed_def http_500_def)
  show ?thesis
    using create_order_and_abort[of flaky_cluster foo_spec "''foo''" "''default''"] na
    unfolding tr by simp
qed

text \<open>
  C8. On a cluster without faults that has no ConfigMap for the resource yet,
  \<open>create_fn\<close> stores one whose data has the single key \<open>config.yaml\<close>, with the
  value \<open>replicas: <n>\<newline>timer: <n>\<newline>\<close> for the spec's replicas (1 when missing) and
  timer (30 when missing). That is the data \<open>configmap_manifest\<close> builds for any
  arguments; \<open><n>\<close> is the decimal notation of the number.
\<close>

theorem config_object_text:
  assumes "faults w = []" and "config_maps w (ns, name @ ''-cm'') = None"
  shows "map_option cm_data (config_maps (snd (create_fn w spec name ns)) (ns, name @ ''-cm'')) =
           Some [(''config.yaml'',
                  ''replicas: '' @ str_int (case spec_replicas spec of None \<Rightarrow> 1 | Some r \<Rightarrow> r)
                    @ ''\<newline>timer: '' @ str_int (case spec_timer spec of None \<Rightarrow> 30 | Some t \<Rightarrow> t)
                    @ ''\<newline>'')]
       \<and> cm_data (configmap_manifest n ns' r t labels) =
           [(''config.yaml'', ''replicas: '' @ str_int r @ ''\<newline>timer: '' @ str_int t @ ''\<newline>'')]
       \<and> str_int 1 = ''1'' \<and> str_int 30 = ''30''
       \<and> (0 \<le> r \<longrightarrow> read_nat (str_int r) = nat r \<and> set (str_int r) \<subseteq> set ''0123456789'')"
proof -
  have "config_maps (snd (create_fn w spec name ns)) (ns, name @ ''-cm'') = Some (cm_of spec name ns)"
    using create_fn_no_faults(3)[OF assms(1), of spec name ns] assms(2) by simp
  then have a: "map_option cm_data (config_maps (snd (create_fn w spec name ns)) (ns, name @ ''-cm'')) =
           Some [(''config.yaml'',
                  ''replicas: '' @ str_int (case spec_replicas spec of None \<Rightarrow> 1 | Some r \<Rightarrow> r)
                    @ ''\<newline>timer: '' @ str_int (case spec_timer spec of None \<Rightarrow> 30 | Some t \<Rightarrow> t)
                    @ ''\<newline>'')]"
    by (simp add: cm_of_def configmap_manifest_def CONFIG_KEY_def)
  have b: "cm_data (configmap_manifest n ns' r t labels) =
           [(''config.yaml'', ''replicas: '' @ str_int r @ ''\<newline>timer: '' @ str_int t @ ''\<newline>'')]"
    by (simp add: configmap_manifest_def CONFIG_KEY_def)
  have c: "0 \<le> r \<longrightarrow> read_nat (str_int r) = nat r \<and> set (str_int r) \<subseteq> set ''0123456789''"
    using read_nat_str_nat[of "nat r"] str_nat_digits[of "nat r"] by (simp add: str_int_def)
  show ?thesis using a b c str_int_small(1,2) by blast
qed

theorem config_object_text_witness:
  "faults empty_cluster = [] \<and> config_maps empty_cluster (''default'', ''foo'' @ ''-cm'') = None
   \<and> map_option cm_data
       (config_maps (snd (create_fn empty_cluster no_spec ''foo'' ''default'')) (''default'', ''foo-cm'')) =
       Some [(''config.yaml'', ''replicas: 1\<newline>timer: 30\<newline>'')]"
proof -
  have h1: "faults empty_cluster = []" by (simp add: empty_cluster_def)
  have h2: "config_maps empty_cluster (''default'', ''foo'' @ ''-cm'') = None"
    by (simp add: empty_cluster_def)
  show ?thesis
    using h1 h2
      config_object_text[OF h1 h2, where spec = no_spec and n = "''foo-cm''" and ns' = "''default''"
        and r = 1 and t = 30 and labels = "[]"]
    by (simp add: no_spec_def str_int_small)
qed


subsection \<open>The Update handler\<close>

text \<open>
  C4. The claim says that no failure of a patch makes \<open>update_fn\<close> raise or keeps the
  other patch from being attempted. On a cluster that cannot be reached the first patch
  call raises \<open>MaxRetryError\<close>, which is not an \<open>ApiException\<close>: \<open>update_fn\<close> ends
  with that exception and the ConfigMap patch is never attempted.
\<close>

theorem update_raises_when_unreachable:
  "fst (update_fn unreachable_cluster foo_spec ''foo'' ''default'' []) = Inl (NotApi ''MaxRetryError'')
   \<and> new_calls unreachable_cluster (snd (update_fn unreachable_cluster foo_spec ''foo'' ''default'' [])) =
       [(PatchStatefulSet ''foo-sts'' ''default'' (sts_body foo_spec), Raised (NotApi ''MaxRetryError''))]"
  by (simp add: update_fn_def unreachable_cluster_def partial_cluster_def empty_cluster_def Let_def
        new_calls_def patch_namespaced_stateful_set_def next_fault_def record_call_def sts_body_def)

text \<open>
  C4, as the code has it. In every world the calls \<open>update_fn\<close> makes are a non-empty
  prefix of: patch the StatefulSet, patch the ConfigMap. A patch that raised
  \<open>ApiException\<close> leaves an error line with the text of the exception in the log and the
  handler goes on: unless a call raised an exception of another class, both patches are
  attempted and the handler returns normally. An exception of another class is not
  caught: the handler ends with it at once, without a further call. In a world whose
  faults are all \<open>ApiException\<close>, then, both patches are always attempted and the handler
  never raises.
\<close>

theorem update_patches_isolated:
  "new_calls w (snd (update_fn w spec name ns diff)) \<noteq> []
   \<and> prefix (map fst (new_calls w (snd (update_fn w spec name ns diff)))) [PatchStatefulSet (name @ ''-sts'') ns (sts_body spec), PatchConfigMap (name @ ''-cm'') ns (cm_body spec)]
   \<and> list_all (\<lambda>(c, out). caught out) (butlast (new_calls w (snd (update_fn w spec name ns diff))))
   \<and> (case snd (last (new_calls w (snd (update_fn w spec name ns diff)))) of
         Raised (NotApi c) \<Rightarrow> fst (update_fn w spec name ns diff) = Inl (NotApi c)
       | _ \<Rightarrow> length (new_calls w (snd (update_fn w spec name ns diff))) = 2 \<and> fst (update_fn w spec name ns diff) = Inr ())
   \<and> (\<forall>e. (PatchStatefulSet (name @ ''-sts'') ns (sts_body spec), Raised (Api e)) \<in> set (new_calls w (snd (update_fn w spec name ns diff))) \<longrightarrow>
          (RootLogging, ERROR, ''Failed to update StatefulSet: '' @ str_of e)
            \<in> set (new_logged w (snd (update_fn w spec name ns diff))))
   \<and> (\<forall>e. (PatchConfigMap (name @ ''-cm'') ns (cm_body spec), Raised (Api e)) \<in> set (new_calls w (snd (update_fn w spec name ns diff))) \<longrightarrow>
          (RootLogging, ERROR, ''Failed to update ConfigMap: '' @ str_of e)
            \<in> set (new_logged w (snd (update_fn w spec name ns diff))))
   \<and> (api_only w \<longrightarrow>
         fst (update_fn w spec name ns diff) = Inr ()
       \<and> (\<exists>o1 o2. new_calls w (snd (update_fn w spec name ns diff)) = [(PatchStatefulSet (name @ ''-sts'') ns (sts_body spec), o1), (PatchConfigMap (name @ ''-cm'') ns (cm_body spec), o2)] \<and> caught o1 \<and> caught o2))"
  using update_fn_trace[of w spec name ns diff] update_fn_api_only[of w spec name ns diff]
  by blast

theorem update_patches_isolated_witness:
  "api_only failing_cluster
   \<and> fst (update_fn failing_cluster foo_spec ''foo'' ''default'' []) = Inr ()
   \<and> new_calls failing_cluster (snd (update_fn failing_cluster foo_spec ''foo'' ''default'' [])) =
       [(PatchStatefulSet ''foo-sts'' ''default'' (sts_body foo_spec), Raised (Api http_500)),
        (PatchConfigMap ''foo-cm'' ''default'' (cm_body foo_spec), Raised (Api http_503))]
   \<and> (RootLogging, ERROR,
        ''Failed to update StatefulSet: (500)\<newline>Reason: Internal Server Error\<newline>'')
       \<in> set (new_logged failing_cluster (snd (update_fn failing_cluster foo_spec ''foo'' ''default'' [])))
   \<and> (RootLogging, ERROR,
        ''Failed to update ConfigMap: (503)\<newline>Reason: Service Unavailable\<newline>'')
       \<in> set (new_logged failing_cluster (snd (update_fn failing_cluster foo_spec ''foo'' ''default'' [])))"
proof -
  have ao: "api_only failing_cluster"
    by (simp add: api_only_def failing_cluster_def empty_cluster_def)
  have tr: "new_calls failing_cluster (snd (update_fn failing_cluster foo_spec ''foo'' ''default'' [])) =
       [(PatchStatefulSet ''foo-sts'' ''default'' (sts_body foo_spec), Raised (Api http_500)),
        (PatchConfigMap ''foo-cm'' ''default'' (cm_body foo_spec), Raised (Api http_503))]"
    by (simp add: update_fn_def failing_cluster_def empty_cluster_def Let_def new_calls_def
          patch_namespaced_stateful_set_def patch_namespaced_config_map_def next_fault_def
          record_call_def logging_error_def sts_body_def cm_body_def)
  have s5: "str_of http_500 = ''(500)\<newline>Reason: Internal Server Error\<newline>''"
    by (simp add: str_of_def http_500_def str_nat.simps digit_char_def)
  have s3: "str_of http_503 = ''(503)\<newline>Reason: Service Unavailable\<newline>''"
    by (simp add: str_of_def http_503_def str_nat.simps digit_char_def)
  show ?thesis
    using ao update_patches_isolated[of failing_cluster foo_spec "''foo''" "''default''" "[]"]
    unfolding tr by (simp add: s5 s3)
qed

text \<open>
  C3. The claim asks that an update which changes only the image leave the ConfigMap's data
  as it was. Evaluated on a resource whose spec has no \<open>timer\<close>: \<open>create_fn\<close> wrote
  the default, \<open>timer: 30\<close>, and \<open>update_fn\<close>, run for a change of the image alone,
  rewrites the data to \<open>timer: None\<close> (and ends normally). The two lemmas
  \<open>update_propagates\<close> and \<open>image_only_update_explicit_fields\<close> above are the parts
  of the claim that hold on a cluster without faults.
\<close>

theorem image_only_update_rewrites_config:
  "map_option cm_data
     (config_maps (snd (create_fn empty_cluster spec_v1 ''foo'' ''default'')) (''default'', ''foo-cm'')) =
     Some [(''config.yaml'', ''replicas: 2\<newline>timer: 30\<newline>'')]
   \<and> map_option cm_data
       (config_maps
          (snd (update_fn (snd (create_fn empty_cluster spec_v1 ''foo'' ''default'')) spec_v2
                  ''foo'' ''default''
                  [(''change'', ''('spec', 'image')'', ''6y6en/ping-pong:v1'', ''6y6en/ping-pong:v2'')]))
          (''default'', ''foo-cm'')) =
     Some [(''config.yaml'', ''replicas: 2\<newline>timer: None\<newline>'')]
   \<and> fst (update_fn (snd (create_fn empty_cluster spec_v1 ''foo'' ''default'')) spec_v2
            ''foo'' ''default''
            [(''change'', ''('spec', 'image')'', ''6y6en/ping-pong:v1'', ''6y6en/ping-pong:v2'')]) = Inr ()"
proof -
  let ?w1 = "snd (create_fn empty_cluster spec_v1 ''foo'' ''default'')"
  let ?diff = "[(''change'', ''('spec', 'image')'', ''6y6en/ping-pong:v1'', ''6y6en/ping-pong:v2'')]"
  have nf: "faults empty_cluster = []" by (simp add: empty_cluster_def)
  note a = create_fn_no_faults[OF nf, of spec_v1 "''foo''" "''default''"]
  have c1: "config_maps ?w1 (''default'', ''foo-cm'') = Some (cm_of spec_v1 ''foo'' ''default'')"
    using a(3) by (simp add: empty_cluster_def)
  note b = update_fn_no_faults[OF a(5), of spec_v2 "''foo''" "''default''" ?diff]
  have c2: "config_maps (snd (update_fn ?w1 spec_v2 ''foo'' ''default'' ?diff)) (''default'', ''foo-cm'') =
      Some (apply_cm_patch (cm_body spec_v2) (cm_of spec_v1 ''foo'' ''default''))"
    using b(3) c1 by simp
  have d1: "cm_data (cm_of spec_v1 ''foo'' ''default'') =
      [(''config.yaml'', ''replicas: 2\<newline>timer: 30\<newline>'')]"
    by (simp add: cm_of_def configmap_manifest_def spec_v1_def CONFIG_KEY_def str_int_small)
  have d2: "cm_data (apply_cm_patch (cm_body spec_v2) (cm_of spec_v1 ''foo'' ''default'')) =
      [(''config.yaml'', ''replicas: 2\<newline>timer: None\<newline>'')]"
    by (simp add: apply_cm_patch_def cm_body_def d1 spec_v2_def CONFIG_KEY_def str_int_small
          fmt_opt_int_def)
  have r: "fst (update_fn ?w1 spec_v2 ''foo'' ''default'' ?diff) = Inr ()"
    using update_fn_api_only[OF api_only_no_faults[OF a(5)], of spec_v2 "''foo''" "''default''" ?diff]
    by blast
  show ?thesis using c1 c2 d1 d2 r by simp
qed


text \<open>
  C6. \<open>update_fn\<close> puts into its two patch bodies what \<open>spec.get\<close> returned, with no
  default: a missing \<open>replicas\<close> or \<open>image\<close> is a null in the StatefulSet patch, and a
  missing \<open>replicas\<close> or \<open>timer\<close> is rendered as the text \<open>None\<close> in the ConfigMap
  data. For a spec with none of the three fields the data is
  \<open>replicas: None\<newline>timer: None\<newline>\<close>, whereas \<open>create_fn\<close> for the same spec
  builds a ConfigMap with \<open>replicas: 1\<newline>timer: 30\<newline>\<close> and a StatefulSet with one
  replica of the baseline image. When the ConfigMap exists and no call fails, the patch
  makes that text the value stored under \<open>config.yaml\<close>. The calls made are these two
  patches, in this order, in every world whose faults are all \<open>ApiException\<close>, and a
  non-empty prefix of them in any world.
\<close>

theorem update_applies_no_defaults:
  "new_calls w (snd (update_fn w spec name ns diff)) \<noteq> []
   \<and> prefix (map fst (new_calls w (snd (update_fn w spec name ns diff))))
       [PatchStatefulSet (name @ ''-sts'') ns
        \<lparr>pb_replicas = spec_replicas spec, pb_containers = [(''main'', spec_image spec)]\<rparr>,
        PatchConfigMap (name @ ''-cm'') ns
        [(''config.yaml'', ''replicas: '' @ fmt_opt_int (spec_replicas spec) @ ''\<newline>timer: ''
                             @ fmt_opt_int (spec_timer spec) @ ''\<newline>'')]]
   \<and> (api_only w \<longrightarrow>
        map fst (new_calls w (snd (update_fn w spec name ns diff))) =
          [PatchStatefulSet (name @ ''-sts'') ns
        \<lparr>pb_replicas = spec_replicas spec, pb_containers = [(''main'', spec_image spec)]\<rparr>,
           PatchConfigMap (name @ ''-cm'') ns
        [(''config.yaml'', ''replicas: '' @ fmt_opt_int (spec_replicas spec) @ ''\<newline>timer: ''
                             @ fmt_opt_int (spec_timer spec) @ ''\<newline>'')]])
   \<and> fmt_opt_int None = ''None''
   \<and> (spec_replicas spec = None \<and> spec_timer spec = None \<and> spec_image spec = None \<longrightarrow>
        prefix (map fst (new_calls w (snd (update_fn w spec name ns diff))))
          [PatchStatefulSet (name @ ''-sts'') ns \<lparr>pb_replicas = None, pb_containers = [(''main'', None)]\<rparr>,
           PatchConfigMap (name @ ''-cm'') ns
             [(''config.yaml'', ''replicas: None\<newline>timer: None\<newline>'')]]
      \<and> (api_only w \<longrightarrow>
           map fst (new_calls w (snd (update_fn w spec name ns diff))) =
             [PatchStatefulSet (name @ ''-sts'') ns \<lparr>pb_replicas = None, pb_containers = [(''main'', None)]\<rparr>,
              PatchConfigMap (name @ ''-cm'') ns
             [(''config.yaml'', ''replicas: None\<newline>timer: None\<newline>'')]])
      \<and> (\<exists>svc cm sts.
            map fst (new_calls (w\<lparr>faults := []\<rparr>) (snd (create_fn (w\<lparr>faults := []\<rparr>) spec name ns))) =
              [CreateService ns svc, CreateConfigMap ns cm, CreateStatefulSet ns sts]
          \<and> cm_data cm = [(''config.yaml'', ''replicas: 1\<newline>timer: 30\<newline>'')]
          \<and> sts_replicas (sts_spec sts) = Some 1
          \<and> map c_image (tmpl_containers (sts_template (sts_spec sts))) =
              [Some ''6y6en/ping-pong:latest'']))
   \<and> (faults w = [] \<and> config_maps w (ns, name @ ''-cm'') = Some cm
        \<and> spec_replicas spec = None \<and> spec_timer spec = None \<longrightarrow>
        (\<exists>cm'. config_maps (snd (update_fn w spec name ns diff)) (ns, name @ ''-cm'') = Some cm'
            \<and> map_of (cm_data cm') ''config.yaml'' = Some ''replicas: None\<newline>timer: None\<newline>''))"
proof -
  have ne: "new_calls w (snd (update_fn w spec name ns diff)) \<noteq> []"
    using update_fn_trace[of w spec name ns diff] by blast
  have p: "prefix (map fst (new_calls w (snd (update_fn w spec name ns diff))))
       [PatchStatefulSet (name @ ''-sts'') ns
        \<lparr>pb_replicas = spec_replicas spec, pb_containers = [(''main'', spec_image spec)]\<rparr>,
        PatchConfigMap (name @ ''-cm'') ns
        [(''config.yaml'', ''replicas: '' @ fmt_opt_int (spec_replicas spec) @ ''\<newline>timer: ''
                             @ fmt_opt_int (spec_timer spec) @ ''\<newline>'')]]"
    using update_fn_trace[of w spec name ns diff]
    by (simp add: sts_body_def cm_body_def CONFIG_KEY_def)
  have u: "api_only w \<longrightarrow>
        map fst (new_calls w (snd (update_fn w spec name ns diff))) =
          [PatchStatefulSet (name @ ''-sts'') ns
        \<lparr>pb_replicas = spec_replicas spec, pb_containers = [(''main'', spec_image spec)]\<rparr>,
           PatchConfigMap (name @ ''-cm'') ns
        [(''config.yaml'', ''replicas: '' @ fmt_opt_int (spec_replicas spec) @ ''\<newline>timer: ''
                             @ fmt_opt_int (spec_timer spec) @ ''\<newline>'')]]"
    using update_fn_api_only[of w spec name ns diff]
    by (auto simp: sts_body_def cm_body_def CONFIG_KEY_def)
  have n: "fmt_opt_int None = ''None''" by (simp add: fmt_opt_int_def)
  have nf: "faults (w\<lparr>faults := []\<rparr>) = []" by simp
  have c: "map fst (new_calls (w\<lparr>faults := []\<rparr>) (snd (create_fn (w\<lparr>faults := []\<rparr>) spec name ns))) =
              [CreateService ns (svc_of name ns), CreateConfigMap ns (cm_of spec name ns),
               CreateStatefulSet ns (sts_of spec name ns)]"
    unfolding create_fn_no_faults(6)[OF nf] by simp
  have d: "spec_replicas spec = None \<and> spec_timer spec = None \<and> spec_image spec = None \<longrightarrow>
        cm_data (cm_of spec name ns) = [(''config.yaml'', ''replicas: 1\<newline>timer: 30\<newline>'')]
      \<and> sts_replicas (sts_spec (sts_of spec name ns)) = Some 1
      \<and> map c_image (tmpl_containers (sts_template (sts_spec (sts_of spec name ns)))) =
              [Some ''6y6en/ping-pong:latest'']"
    by (simp add: cm_of_def sts_of_def configmap_manifest_def statefulset_manifest_def Let_def
          CONFIG_KEY_def str_int_small)
  have x: "spec_replicas spec = None \<and> spec_timer spec = None \<and> spec_image spec = None \<longrightarrow>
      (\<exists>svc cm sts.
            map fst (new_calls (w\<lparr>faults := []\<rparr>) (snd (create_fn (w\<lparr>faults := []\<rparr>) spec name ns))) =
              [CreateService ns svc, CreateConfigMap ns cm, CreateStatefulSet ns sts]
          \<and> cm_data cm = [(''config.yaml'', ''replicas: 1\<newline>timer: 30\<newline>'')]
          \<and> sts_replicas (sts_spec sts) = Some 1
          \<and> map c_image (tmpl_containers (sts_template (sts_spec sts))) =
              [Some ''6y6en/ping-pong:latest''])"
  proof
    assume h: "spec_replicas spec = None \<and> spec_timer spec = None \<and> spec_image spec = None"
    from d h have dd:
      "cm_data (cm_of spec name ns) = [(''config.yaml'', ''replicas: 1\<newline>timer: 30\<newline>'')]"
      "sts_replicas (sts_spec (sts_of spec name ns)) = Some 1"
      "map c_image (tmpl_containers (sts_template (sts_spec (sts_of spec name ns)))) =
              [Some ''6y6en/ping-pong:latest'']"
      by blast+
    show "\<exists>svc cm sts.
            map fst (new_calls (w\<lparr>faults := []\<rparr>) (snd (create_fn (w\<lparr>faults := []\<rparr>) spec name ns))) =
              [CreateService ns svc, CreateConfigMap ns cm, CreateStatefulSet ns sts]
          \<and> cm_data cm = [(''config.yaml'', ''replicas: 1\<newline>timer: 30\<newline>'')]
          \<and> sts_replicas (sts_spec sts) = Some 1
          \<and> map c_image (tmpl_containers (sts_template (sts_spec sts))) =
              [Some ''6y6en/ping-pong:latest'']"
      by (rule exI[of _ "svc_of name ns"], rule exI[of _ "cm_of spec name ns"],
          rule exI[of _ "sts_of spec name ns"])
         (simp add: c dd)
  qed
  have ex: "spec_replicas spec = None \<and> spec_timer spec = None \<and> spec_image spec = None \<longrightarrow>
        prefix (map fst (new_calls w (snd (update_fn w spec name ns diff))))
          [PatchStatefulSet (name @ ''-sts'') ns \<lparr>pb_replicas = None, pb_containers = [(''main'', None)]\<rparr>,
           PatchConfigMap (name @ ''-cm'') ns
             [(''config.yaml'', ''replicas: None\<newline>timer: None\<newline>'')]]
      \<and> (api_only w \<longrightarrow>
           map fst (new_calls w (snd (update_fn w spec name ns diff))) =
             [PatchStatefulSet (name @ ''-sts'') ns \<lparr>pb_replicas = None, pb_containers = [(''main'', None)]\<rparr>,
              PatchConfigMap (name @ ''-cm'') ns
             [(''config.yaml'', ''replicas: None\<newline>timer: None\<newline>'')]])
      \<and> (\<exists>svc cm sts.
            map fst (new_calls (w\<lparr>faults := []\<rparr>) (snd (create_fn (w\<lparr>faults := []\<rparr>) spec name ns))) =
              [CreateService ns svc, CreateConfigMap ns cm, CreateStatefulSet ns sts]
          \<and> cm_data cm = [(''config.yaml'', ''replicas: 1\<newline>timer: 30\<newline>'')]
          \<and> sts_replicas (sts_spec sts) = Some 1
          \<and> map c_image (tmpl_containers (sts_template (sts_spec sts))) =
              [Some ''6y6en/ping-pong:latest''])"
  proof (intro impI conjI)
    assume h: "spec_replicas spec = None \<and> spec_timer spec = None \<and> spec_image spec = None"
    have b: "[PatchStatefulSet (name @ ''-sts'') ns
        \<lparr>pb_replicas = spec_replicas spec, pb_containers = [(''main'', spec_image spec)]\<rparr>,
        PatchConfigMap (name @ ''-cm'') ns
        [(''config.yaml'', ''replicas: '' @ fmt_opt_int (spec_replicas spec) @ ''\<newline>timer: ''
                             @ fmt_opt_int (spec_timer spec) @ ''\<newline>'')]] =
          [PatchStatefulSet (name @ ''-sts'') ns \<lparr>pb_replicas = None, pb_containers = [(''main'', None)]\<rparr>,
           PatchConfigMap (name @ ''-cm'') ns
             [(''config.yaml'', ''replicas: None\<newline>timer: None\<newline>'')]]"
      using h by (simp add: n)
    show "prefix (map fst (new_calls w (snd (update_fn w spec name ns diff))))
          [PatchStatefulSet (name @ ''-sts'') ns \<lparr>pb_replicas = None, pb_containers = [(''main'', None)]\<rparr>,
           PatchConfigMap (name @ ''-cm'') ns
             [(''config.yaml'', ''replicas: None\<newline>timer: None\<newline>'')]]"
      using p unfolding b .
    show "map fst (new_calls w (snd (update_fn w spec name ns diff))) =
             [PatchStatefulSet (name @ ''-sts'') ns \<lparr>pb_replicas = None, pb_containers = [(''main'', None)]\<rparr>,
              PatchConfigMap (name @ ''-cm'') ns
             [(''config.yaml'', ''replicas: None\<newline>timer: None\<newline>'')]]" if "api_only w"
      using u that unfolding b by (rule mp)
    show "(\<exists>svc cm sts.
            map fst (new_calls (w\<lparr>faults := []\<rparr>) (snd (create_fn (w\<lparr>faults := []\<rparr>) spec name ns))) =
              [CreateService ns svc, CreateConfigMap ns cm, CreateStatefulSet ns sts]
          \<and> cm_data cm = [(''config.yaml'', ''replicas: 1\<newline>timer: 30\<newline>'')]
          \<and> sts_replicas (sts_spec sts) = Some 1
          \<and> map c_image (tmpl_containers (sts_template (sts_spec sts))) =
              [Some ''6y6en/ping-pong:latest''])"
      using x h by (rule mp)
  qed
  have st: "faults w = [] \<and> config_maps w (ns, name @ ''-cm'') = Some cm
        \<and> spec_replicas spec = None \<and> spec_timer spec = None \<longrightarrow>
        (\<exists>cm'. config_maps (snd (update_fn w spec name ns diff)) (ns, name @ ''-cm'') = Some cm'
            \<and> map_of (cm_data cm') ''config.yaml'' = Some ''replicas: None\<newline>timer: None\<newline>'')"
  proof
    assume h: "faults w = [] \<and> config_maps w (ns, name @ ''-cm'') = Some cm
        \<and> spec_replicas spec = None \<and> spec_timer spec = None"
    then have nf0: "faults w = []" by blast
    have "config_maps (snd (update_fn w spec name ns diff)) (ns, name @ ''-cm'') =
            Some (apply_cm_patch (cm_body spec) cm)"
      using update_fn_no_faults(3)[OF nf0, of spec name ns diff] h by simp
    moreover have "map_of (cm_data (apply_cm_patch (cm_body spec) cm)) ''config.yaml'' =
            Some ''replicas: None\<newline>timer: None\<newline>''"
      using cm_data_patched[of spec cm] h by (simp add: n)
    ultimately show "\<exists>cm'. config_maps (snd (update_fn w spec name ns diff)) (ns, name @ ''-cm'') = Some cm'
            \<and> map_of (cm_data cm') ''config.yaml'' = Some ''replicas: None\<newline>timer: None\<newline>''"
      by simp
  qed
  show ?thesis by (intro conjI; fact)
qed

theorem update_applies_no_defaults_witness:
  "spec_replicas no_spec = None \<and> spec_timer no_spec = None \<and> spec_image no_spec = None
   \<and> faults partial_cluster = [] \<and> api_only partial_cluster
   \<and> config_maps partial_cluster (''default'', ''foo'' @ ''-cm'') = Some (cm_of foo_spec ''foo'' ''default'')
   \<and> map fst (new_calls partial_cluster (snd (update_fn partial_cluster no_spec ''foo'' ''default'' []))) =
       [PatchStatefulSet ''foo-sts'' ''default'' \<lparr>pb_replicas = None, pb_containers = [(''main'', None)]\<rparr>,
        PatchConfigMap ''foo-cm'' ''default''
          [(''config.yaml'', ''replicas: None\<newline>timer: None\<newline>'')]]
   \<and> (\<exists>cm'. config_maps (snd (update_fn partial_cluster no_spec ''foo'' ''default'' []))
                 (''default'', ''foo-cm'') = Some cm'
          \<and> map_of (cm_data cm') ''config.yaml'' = Some ''replicas: None\<newline>timer: None\<newline>'')"
proof -
  have ao: "api_only partial_cluster"
    by (simp add: api_only_def partial_cluster_def empty_cluster_def)
  show ?thesis
    using ao update_applies_no_defaults[where w = partial_cluster and spec = no_spec
            and name = "''foo''" and ns = "''default''" and diff = "[]"
            and cm = "cm_of foo_spec ''foo'' ''default''"]
    by (simp add: no_spec_def partial_cluster_def empty_cluster_def)
qed

subsection \<open>The Delete handler\<close>

text \<open>
  C5. The claim says that \<open>delete_fn\<close> attempts all three deletes and always completes
  without raising. On a cluster that cannot be reached the first delete call raises
  \<open>MaxRetryError\<close>, which is not an \<open>ApiException\<close>: \<open>delete_fn\<close> ends with that
  exception after one call, and the Service it was to delete is still there.
\<close>

theorem delete_raises_when_unreachable:
  "fst (delete_fn unreachable_cluster foo_spec ''foo'' ''default'') = Inl (NotApi ''MaxRetryError'')
   \<and> new_calls unreachable_cluster (snd (delete_fn unreachable_cluster foo_spec ''foo'' ''default'')) =
       [(DeleteService ''foo-svc'' ''default'', Raised (NotApi ''MaxRetryError''))]
   \<and> services (snd (delete_fn unreachable_cluster foo_spec ''foo'' ''default'')) (''default'', ''foo-svc'') =
       Some (svc_of ''foo'' ''default'')"
  by (simp add: delete_fn_def unreachable_cluster_def partial_cluster_def empty_cluster_def Let_def
        new_calls_def delete_namespaced_service_def next_fault_def record_call_def)

text \<open>
  C5, as the code has it. In every world the calls \<open>delete_fn\<close> makes are a non-empty
  prefix of: delete the Service, delete the StatefulSet, delete the ConfigMap. A call that
  raised \<open>ApiException\<close> is logged (\<open>delete_lines\<close>: an info line for status 404, an
  error line for any other status) and the loop goes on: unless a call raised an exception
  of another class, all three deletes are attempted and the handler returns normally. An
  exception of another class is not caught: the handler ends with it at once, without a
  further call. In a world whose faults are all \<open>ApiException\<close>, then, all three deletes
  are always attempted and the handler never raises. On a cluster without faults none of
  the three objects is left afterwards, and a call whose object was already gone gets 404;
  so a second Delete, when nothing is left, completes as well.
\<close>

theorem delete_total:
  "new_calls w (snd (delete_fn w spec name ns)) \<noteq> []
   \<and> prefix (map fst (new_calls w (snd (delete_fn w spec name ns)))) [DeleteService (name @ ''-svc'') ns, DeleteStatefulSet (name @ ''-sts'') ns, DeleteConfigMap (name @ ''-cm'') ns]
   \<and> list_all (\<lambda>(c, out). caught out) (butlast (new_calls w (snd (delete_fn w spec name ns))))
   \<and> (case snd (last (new_calls w (snd (delete_fn w spec name ns)))) of
         Raised (NotApi c) \<Rightarrow> fst (delete_fn w spec name ns) = Inl (NotApi c)
       | _ \<Rightarrow> length (new_calls w (snd (delete_fn w spec name ns))) = 3 \<and> fst (delete_fn w spec name ns) = Inr ())
   \<and> new_logged w (snd (delete_fn w spec name ns)) =
        concat (map (\<lambda>(c, out). delete_lines (snd (snd (call_target c))) out) (new_calls w (snd (delete_fn w spec name ns))))
   \<and> (\<forall>n e. delete_lines n (Raised (Api e)) =
          [if status e = 404 then (KopfLogger, INFO, n @ '' already deleted'')
           else (KopfLogger, ERROR, ''Failed to delete '' @ n @ '': '' @ str_of e)])
   \<and> (api_only w \<longrightarrow>
         fst (delete_fn w spec name ns) = Inr ()
       \<and> (\<exists>o1 o2 o3. new_calls w (snd (delete_fn w spec name ns)) = [(DeleteService (name @ ''-svc'') ns, o1), (DeleteStatefulSet (name @ ''-sts'') ns, o2), (DeleteConfigMap (name @ ''-cm'') ns, o3)]
             \<and> caught o1 \<and> caught o2 \<and> caught o3))
   \<and> (faults w = [] \<longrightarrow>
         fst (delete_fn w spec name ns) = Inr ()
       \<and> services (snd (delete_fn w spec name ns)) = (services w)((ns, name @ ''-svc'') := None)
       \<and> stateful_sets (snd (delete_fn w spec name ns)) = (stateful_sets w)((ns, name @ ''-sts'') := None)
       \<and> config_maps (snd (delete_fn w spec name ns)) = (config_maps w)((ns, name @ ''-cm'') := None)
       \<and> map snd (new_calls w (snd (delete_fn w spec name ns))) =
           [if services w (ns, name @ ''-svc'') = None then Raised (Api not_found) else Returned,
            if stateful_sets w (ns, name @ ''-sts'') = None then Raised (Api not_found) else Returned,
            if config_maps w (ns, name @ ''-cm'') = None then Raised (Api not_found) else Returned])"
proof -
  have l: "\<forall>n e. delete_lines n (Raised (Api e)) =
          [if status e = 404 then (KopfLogger, INFO, n @ '' already deleted'')
           else (KopfLogger, ERROR, ''Failed to delete '' @ n @ '': '' @ str_of e)]"
    by (simp add: delete_lines_def)
  show ?thesis
    using delete_fn_trace[of w spec name ns] delete_fn_api_only[of w spec name ns]
      delete_fn_no_faults[of w spec name ns] l
    by blast
qed

theorem delete_total_witness:
  "faults empty_cluster = [] \<and> api_only empty_cluster
   \<and> fst (delete_fn empty_cluster foo_spec ''foo'' ''default'') = Inr ()
   \<and> new_calls empty_cluster (snd (delete_fn empty_cluster foo_spec ''foo'' ''default'')) =
       [(DeleteService ''foo-svc'' ''default'', Raised (Api not_found)),
        (DeleteStatefulSet ''foo-sts'' ''default'', Raised (Api not_found)),
        (DeleteConfigMap ''foo-cm'' ''default'', Raised (Api not_found))]
   \<and> new_logged empty_cluster (snd (delete_fn empty_cluster foo_spec ''foo'' ''default'')) =
       [(KopfLogger, INFO, ''foo-svc already deleted''),
        (KopfLogger, INFO, ''foo-sts already deleted''),
        (KopfLogger, INFO, ''foo-cm already deleted'')]"
proof -
  have h: "faults empty_cluster = []"
    by (simp add: empty_cluster_def)
  have ao: "api_only empty_cluster" by (rule api_only_no_faults[OF h])
  have "\<exists>o1 o2 o3. new_calls empty_cluster (snd (delete_fn empty_cluster foo_spec ''foo'' ''default'')) =
       [(DeleteService ''foo-svc'' ''default'', o1), (DeleteStatefulSet ''foo-sts'' ''default'', o2),
        (DeleteConfigMap ''foo-cm'' ''default'', o3)]"
    using delete_total[of empty_cluster foo_spec "''foo''" "''default''"] ao by auto
  then obtain o1 o2 o3 where tr:
    "new_calls empty_cluster (snd (delete_fn empty_cluster foo_spec ''foo'' ''default'')) =
       [(DeleteService ''foo-svc'' ''default'', o1), (DeleteStatefulSet ''foo-sts'' ''default'', o2),
        (DeleteConfigMap ''foo-cm'' ''default'', o3)]"
    by blast
  show ?thesis
    using h ao delete_total[of empty_cluster foo_spec "''foo''" "''default''"]
    unfolding tr
    by (simp add: empty_cluster_def delete_lines_def not_found_def)
qed

subsection \<open>The workload's ping loop\<close>

text \<open>
  C10. When the loaded configuration gives \<open>replicas\<close> as an int \<open>r\<close>, one pass of the
  ping loop makes exactly one request for each ordinal \<open>i\<close> with \<open>0 \<le> i < r\<close> other than
  the pod's own, in increasing order, whatever the requests answer. The request for
  ordinal \<open>i\<close> goes to \<open>http://<prefix>-<i>/ping\<close>, with the headless service's name
  after the host when it is set; different ordinals have different addresses, and the
  address of the pod's own ordinal is never requested. For \<open>r = 3\<close> the pod of ordinal 1
  requests \<open>foo-sts-0\<close> and \<open>foo-sts-2\<close>.
\<close>

theorem ping_peers:
  assumes "map_of (config (load_config srv file)) ''replicas'' = Some (PyInt r)"
  shows "ping_pass srv file requests_get =
           Inr (map (\<lambda>i. (i,
                     ''http://'' @ pod_prefix srv @ ''-'' @ str_int i
                  @ (if service_name srv \<noteq> [] then ''.'' @ service_name srv else []) @ ''/ping'',
                     requests_get
                       (''http://'' @ pod_prefix srv @ ''-'' @ str_int i
                  @ (if service_name srv \<noteq> [] then ''.'' @ service_name srv else []) @ ''/ping'')))
                  (filter (\<lambda>i. i \<noteq> pod_number srv) [0..r - 1]))
       \<and> set (filter (\<lambda>i. i \<noteq> pod_number srv) [0..r - 1]) =
           {i. 0 \<le> i \<and> i < r \<and> i \<noteq> pod_number srv}
       \<and> (\<forall>i j. (''http://'' @ pod_prefix srv @ ''-'' @ str_int i
                  @ (if service_name srv \<noteq> [] then ''.'' @ service_name srv else []) @ ''/ping'') =
                 (''http://'' @ pod_prefix srv @ ''-'' @ str_int j
                  @ (if service_name srv \<noteq> [] then ''.'' @ service_name srv else []) @ ''/ping'')
                \<longrightarrow> i = j)
       \<and> (\<forall>i \<in> set (filter (\<lambda>i. i \<noteq> pod_number srv) [0..r - 1]).
             (''http://'' @ pod_prefix srv @ ''-'' @ str_int i
                  @ (if service_name srv \<noteq> [] then ''.'' @ service_name srv else []) @ ''/ping'') \<noteq>
             (''http://'' @ pod_prefix srv @ ''-'' @ str_int (pod_number srv)
                  @ (if service_name srv \<noteq> [] then ''.'' @ service_name srv else []) @ ''/ping''))"
proof -
  have u: "\<And>i. ping_url srv i = ''http://'' @ pod_prefix srv @ ''-'' @ str_int i
                  @ (if service_name srv \<noteq> [] then ''.'' @ service_name srv else []) @ ''/ping''"
    by (simp add: ping_url_def)
  have a: "ping_pass srv file requests_get =
           Inr (map (\<lambda>i. (i, ping_url srv i, requests_get (ping_url srv i)))
                  (filter (\<lambda>i. i \<noteq> pod_number srv) [0..r - 1]))"
    using assms by (simp add: ping_pass_def Let_def ping_range_eq)
  have b: "set (filter (\<lambda>i. i \<noteq> pod_number srv) [0..r - 1]) =
           {i. 0 \<le> i \<and> i < r \<and> i \<noteq> pod_number srv}"
    by auto
  have c: "\<forall>i j. ping_url srv i = ping_url srv j \<longrightarrow> i = j"
    using ping_url_inj by blast
  have d: "\<forall>i \<in> set (filter (\<lambda>i. i \<noteq> pod_number srv) [0..r - 1]).
             ping_url srv i \<noteq> ping_url srv (pod_number srv)"
    using ping_url_inj by fastforce
  show ?thesis using a b c d unfolding u by blast
qed

theorem ping_peers_witness:
  "map_of (config (load_config pod_1 (Some [(''replicas'', PyInt 3), (''timer'', PyInt 30)])))
      ''replicas'' = Some (PyInt 3)
   \<and> ping_pass pod_1 (Some [(''replicas'', PyInt 3), (''timer'', PyInt 30)])
        (\<lambda>url. Inr ''pong\<newline>'') =
       Inr [(0, ''http://foo-sts-0.foo-svc/ping'', Inr ''pong\<newline>''),
            (2, ''http://foo-sts-2.foo-svc/ping'', Inr ''pong\<newline>'')]"
proof -
  have h: "map_of (config (load_config pod_1 (Some [(''replicas'', PyInt 3), (''timer'', PyInt 30)])))
      ''replicas'' = Some (PyInt 3)"
    by (simp add: load_config_def pod_1_def)
  have f: "filter (\<lambda>i. i \<noteq> pod_number pod_1) [0..3 - 1] = [0, 2]"
    by (simp add: pod_1_def upto.simps)
  show ?thesis
    using h ping_peers[OF h, of "\<lambda>url. Inr ''pong\<newline>''"]
    unfolding f by (simp add: pod_1_def str_int_small)
qed

subsection \<open>Names and labels\<close>

text \<open>
  C7. Whatever the world, the namespace and the spec: the names \<open>create_fn\<close> returns
  are the resource name followed by \<open>-svc\<close>, \<open>-sts\<close> and \<open>-cm\<close>; the objects its
  calls create are the Service \<open>name-svc\<close>, the ConfigMap \<open>name-cm\<close> and the
  StatefulSet \<open>name-sts\<close>; \<open>update_fn\<close> patches the StatefulSet \<open>name-sts\<close> and the
  ConfigMap \<open>name-cm\<close>; \<open>delete_fn\<close> deletes the Service \<open>name-svc\<close>, the
  StatefulSet \<open>name-sts\<close> and the ConfigMap \<open>name-cm\<close>. A handler that an exception
  ends early has addressed the first of its objects only; in a world whose faults are
  all \<open>ApiException\<close>, \<open>update_fn\<close> and \<open>delete_fn\<close> address all of theirs.
\<close>

theorem derived_names:
  "(case fst (create_fn w spec name ns) of
      Inl e \<Rightarrow> True
    | Inr ret \<Rightarrow> ret = [(''svc_name'', name @ ''-svc''), (''sts_name'', name @ ''-sts''),
                        (''cm_name'', name @ ''-cm'')])
   \<and> new_calls w (snd (create_fn w spec name ns)) \<noteq> []
   \<and> prefix (map (call_target \<circ> fst) (new_calls w (snd (create_fn w spec name ns))))
        [(''Service'', ns, name @ ''-svc''), (''ConfigMap'', ns, name @ ''-cm''),
         (''StatefulSet'', ns, name @ ''-sts'')]
   \<and> new_calls w (snd (update_fn w spec name ns diff)) \<noteq> []
   \<and> prefix (map (call_target \<circ> fst) (new_calls w (snd (update_fn w spec name ns diff))))
        [(''StatefulSet'', ns, name @ ''-sts''), (''ConfigMap'', ns, name @ ''-cm'')]
   \<and> (api_only w \<longrightarrow> map (call_target \<circ> fst) (new_calls w (snd (update_fn w spec name ns diff))) =
        [(''StatefulSet'', ns, name @ ''-sts''), (''ConfigMap'', ns, name @ ''-cm'')])
   \<and> new_calls w (snd (delete_fn w spec name ns)) \<noteq> []
   \<and> prefix (map (call_target \<circ> fst) (new_calls w (snd (delete_fn w spec name ns))))
        [(''Service'', ns, name @ ''-svc''), (''StatefulSet'', ns, name @ ''-sts''),
         (''ConfigMap'', ns, name @ ''-cm'')]
   \<and> (api_only w \<longrightarrow> map (call_target \<circ> fst) (new_calls w (snd (delete_fn w spec name ns))) =
        [(''Service'', ns, name @ ''-svc''), (''StatefulSet'', ns, name @ ''-sts''),
         (''ConfigMap'', ns, name @ ''-cm'')])"
proof -
  have r: "case fst (create_fn w spec name ns) of
      Inl e \<Rightarrow> True
    | Inr ret \<Rightarrow> ret = [(''svc_name'', name @ ''-svc''), (''sts_name'', name @ ''-sts''),
                        (''cm_name'', name @ ''-cm'')]"
    using create_fn_result[of w spec name ns] by (auto simp: create_ret_def)
  have cn: "new_calls w (snd (create_fn w spec name ns)) \<noteq> []"
    using create_fn_trace[of w spec name ns] by blast
  have "prefix (map fst (new_calls w (snd (create_fn w spec name ns))))
        [CreateService ns (svc_of name ns), CreateConfigMap ns (cm_of spec name ns),
         CreateStatefulSet ns (sts_of spec name ns)]"
    using create_fn_trace[of w spec name ns] by blast
  then have "prefix (map call_target (map fst (new_calls w (snd (create_fn w spec name ns)))))
        (map call_target [CreateService ns (svc_of name ns), CreateConfigMap ns (cm_of spec name ns),
         CreateStatefulSet ns (sts_of spec name ns)])"
    by (rule map_mono_prefix)
  then have c: "prefix (map (call_target \<circ> fst) (new_calls w (snd (create_fn w spec name ns))))
        [(''Service'', ns, name @ ''-svc''), (''ConfigMap'', ns, name @ ''-cm''),
         (''StatefulSet'', ns, name @ ''-sts'')]"
    unfolding create_targets by simp
  have un: "new_calls w (snd (update_fn w spec name ns diff)) \<noteq> []"
    using update_fn_trace[of w spec name ns diff] by blast
  have "prefix (map fst (new_calls w (snd (update_fn w spec name ns diff))))
        [PatchStatefulSet (name @ ''-sts'') ns (sts_body spec),
         PatchConfigMap (name @ ''-cm'') ns (cm_body spec)]"
    using update_fn_trace[of w spec name ns diff] by blast
  then have "prefix (map call_target (map fst (new_calls w (snd (update_fn w spec name ns diff)))))
        (map call_target [PatchStatefulSet (name @ ''-sts'') ns (sts_body spec),
         PatchConfigMap (name @ ''-cm'') ns (cm_body spec)])"
    by (rule map_mono_prefix)
  then have up: "prefix (map (call_target \<circ> fst) (new_calls w (snd (update_fn w spec name ns diff))))
        [(''StatefulSet'', ns, name @ ''-sts''), (''ConfigMap'', ns, name @ ''-cm'')]"
    by simp
  have ue: "api_only w \<longrightarrow> map (call_target \<circ> fst) (new_calls w (snd (update_fn w spec name ns diff))) =
        [(''StatefulSet'', ns, name @ ''-sts''), (''ConfigMap'', ns, name @ ''-cm'')]"
    using update_fn_api_only[of w spec name ns diff] by auto
  have dn: "new_calls w (snd (delete_fn w spec name ns)) \<noteq> []"
    using delete_fn_trace[of w spec name ns] by blast
  have "prefix (map fst (new_calls w (snd (delete_fn w spec name ns))))
        [DeleteService (name @ ''-svc'') ns, DeleteStatefulSet (name @ ''-sts'') ns,
         DeleteConfigMap (name @ ''-cm'') ns]"
    using delete_fn_trace[of w spec name ns] by blast
  then have "prefix (map call_target (map fst (new_calls w (snd (delete_fn w spec name ns)))))
        (map call_target [DeleteService (name @ ''-svc'') ns, DeleteStatefulSet (name @ ''-sts'') ns,
         DeleteConfigMap (name @ ''-cm'') ns])"
    by (rule map_mono_prefix)
  then have dp: "prefix (map (call_target \<circ> fst) (new_calls w (snd (delete_fn w spec name ns))))
        [(''Service'', ns, name @ ''-svc''), (''StatefulSet'', ns, name @ ''-sts''),
         (''ConfigMap'', ns, name @ ''-cm'')]"
    by simp
  have de: "api_only w \<longrightarrow> map (call_target \<circ> fst) (new_calls w (snd (delete_fn w spec name ns))) =
        [(''Service'', ns, name @ ''-svc''), (''StatefulSet'', ns, name @ ''-sts''),
         (''ConfigMap'', ns, name @ ''-cm'')]"
    using delete_fn_api_only[of w spec name ns] by auto
  show ?thesis by (intro conjI; fact)
qed

theorem derived_names_witness:
  "api_only empty_cluster
   \<and> fst (create_fn empty_cluster no_spec ''foo'' ''kube-system'') =
     Inr [(''svc_name'', ''foo-svc''), (''sts_name'', ''foo-sts''), (''cm_name'', ''foo-cm'')]
   \<and> map (call_target \<circ> fst)
       (new_calls empty_cluster (snd (update_fn empty_cluster no_spec ''foo'' ''kube-system'' []))) =
     [(''StatefulSet'', ''kube-system'', ''foo-sts''), (''ConfigMap'', ''kube-system'', ''foo-cm'')]
   \<and> map (call_target \<circ> fst)
       (new_calls empty_cluster (snd (delete_fn empty_cluster no_spec ''foo'' ''kube-system''))) =
     [(''Service'', ''kube-system'', ''foo-svc''), (''StatefulSet'', ''kube-system'', ''foo-sts''),
      (''ConfigMap'', ''kube-system'', ''foo-cm'')]"
proof -
  have nf: "faults empty_cluster = []" by (simp add: empty_cluster_def)
  have ao: "api_only empty_cluster" by (rule api_only_no_faults[OF nf])
  have ok: "fst (create_fn empty_cluster no_spec ''foo'' ''kube-system'') = Inr (create_ret ''foo'')"
    by (rule create_fn_no_faults(1)[OF nf])
  show ?thesis
    using derived_names[where w = empty_cluster and spec = no_spec and name = "''foo''"
            and ns = "''kube-system''" and diff = "[]"] ok ao
    by simp
qed

text \<open>
  C9. Every label set of every object \<open>create_fn\<close> sends to the cluster is
  \<open>{app: name}\<close>: the metadata labels of the three objects, the selector of the Service,
  the selector of the StatefulSet and the labels of its pod template. Each builder puts
  the one \<open>labels\<close> argument it is given in all these places, so the selector of the
  StatefulSet equals the labels of its pod template.
\<close>

theorem labels_shared:
  "(\<forall>c \<in> set (new_calls w (snd (create_fn w spec name ns))).
      \<forall>l \<in> set (call_labels (fst c)). l = [(''app'', name)])
   \<and> ss_selector (svc_spec (service_manifest n ns labels)) = labels
   \<and> meta_labels (svc_metadata (service_manifest n ns labels)) = labels
   \<and> meta_labels (cm_metadata (configmap_manifest n ns r t labels)) = labels
   \<and> sts_selector (sts_spec (statefulset_manifest n sn cn ns labels r i)) = labels
   \<and> tmpl_labels (sts_template (sts_spec (statefulset_manifest n sn cn ns labels r i))) = labels
   \<and> meta_labels (sts_metadata (statefulset_manifest n sn cn ns labels r i)) = labels"
proof -
  have "prefix (map fst (new_calls w (snd (create_fn w spec name ns))))
        [CreateService ns (svc_of name ns), CreateConfigMap ns (cm_of spec name ns),
         CreateStatefulSet ns (sts_of spec name ns)]"
    using create_fn_trace[of w spec name ns] by blast
  then have "set (map fst (new_calls w (snd (create_fn w spec name ns)))) \<subseteq>
        set [CreateService ns (svc_of name ns), CreateConfigMap ns (cm_of spec name ns),
         CreateStatefulSet ns (sts_of spec name ns)]"
    by (rule set_mono_prefix)
  then have a: "\<forall>c \<in> set (new_calls w (snd (create_fn w spec name ns))).
      \<forall>l \<in> set (call_labels (fst c)). l = [(''app'', name)]"
    using manifest_labels by fastforce
  show ?thesis using a
    by (simp add: service_manifest_def configmap_manifest_def statefulset_manifest_def Let_def)
qed

theorem labels_shared_witness:
  "(CreateStatefulSet ''default'' (sts_of foo_spec ''foo'' ''default''), Returned)
     \<in> set (new_calls empty_cluster (snd (create_fn empty_cluster foo_spec ''foo'' ''default'')))
   \<and> sts_selector (sts_spec (sts_of foo_spec ''foo'' ''default'')) = [(''app'', ''foo'')]
   \<and> tmpl_labels (sts_template (sts_spec (sts_of foo_spec ''foo'' ''default''))) = [(''app'', ''foo'')]"
proof -
  have nf: "faults empty_cluster = []" by (simp add: empty_cluster_def)
  have m: "(CreateStatefulSet ''default'' (sts_of foo_spec ''foo'' ''default''), Returned)
     \<in> set (new_calls empty_cluster (snd (create_fn empty_cluster foo_spec ''foo'' ''default'')))"
    unfolding create_fn_no_faults(6)[OF nf] by (simp add: empty_cluster_def)
  have "\<forall>l \<in> set (call_labels (CreateStatefulSet ''default'' (sts_of foo_spec ''foo'' ''default''))).
          l = [(''app'', ''foo'')]"
    using labels_shared[where w = empty_cluster and spec = foo_spec and name = "''foo''"
            and ns = "''default''"] m by fastforce
  then show ?thesis using m by simp
qed

end
